theory Spec2Isabelle
  imports Complex_Main "HOL-Library.AList"
begin

section \<open>The clock module of py3status\<close>

text \<open>
  A shallow embedding of \<^verbatim>\<open>src/py3status/modules/clock.py\<close>: the class \<^verbatim>\<open>Py3status\<close>
  with its methods \<^verbatim>\<open>post_config_hook\<close>, \<^verbatim>\<open>_get_timezone\<close>, \<^verbatim>\<open>_change_active\<close>,
  \<^verbatim>\<open>on_click\<close> and \<^verbatim>\<open>clock\<close>.

  Conventions of the model.
  \<^item> A Python \<^verbatim>\<open>str\<close> is a \<^typ>\<open>string\<close>, one \<^typ>\<open>char\<close> for one character. This is exact
    for ASCII text, which is what time zone names, country codes, placeholders and
    strftime directives are. The glyphs of \<^verbatim>\<open>blocks\<close> are not ASCII: that string is
    kept as a list with one entry for each of its characters, the entry being the bytes
    of the character's UTF-8 encoding.
  \<^item> \<^verbatim>\<open>time()\<close> returns a float and the decimal hour is a float. The model computes
    with exact rationals: a statement below is about the arithmetic the code writes
    down, without rounding.
  \<^item> An exception is a value of type \<open>error\<close>; a method that can raise returns a sum
    with \<open>Inl\<close> for the exception.
  \<^item> Every call of \<^verbatim>\<open>time()\<close> and of \<^verbatim>\<open>datetime.now\<close> is an argument of the method
    that makes it, one argument for each call site.
  \<^item> The libraries \<^verbatim>\<open>pytz\<close> and \<^verbatim>\<open>tzlocal\<close>, the helper object \<^verbatim>\<open>self.py3\<close> and
    \<^verbatim>\<open>strftime\<close> are not part of the module: they are the fields of a record \<open>env\<close>
    that every theorem quantifies over.
\<close>

subsection \<open>Python primitives\<close>

datatype error = IndexError | ZeroDivisionError

text \<open>\<^verbatim>\<open>xs[i]\<close> for an index that is never negative.\<close>

definition py_index :: "'a list \<Rightarrow> nat \<Rightarrow> error + 'a" where
  "py_index xs i = (if i < length xs then Inr (xs ! i) else Inl IndexError)"

text \<open>\<^verbatim>\<open>x % y\<close> on floats: the result has the sign of \<open>y\<close>; a zero \<open>y\<close> raises.\<close>

definition fmod :: "rat \<Rightarrow> rat \<Rightarrow> rat" where
  "fmod x y = x - y * of_int \<lfloor>x / y\<rfloor>"

definition py_mod :: "rat \<Rightarrow> rat \<Rightarrow> error + rat" where
  "py_mod x y = (if y = 0 then Inl ZeroDivisionError else Inr (fmod x y))"

text \<open>\<^verbatim>\<open>sub in s\<close> for strings.\<close>

fun str_in :: "string \<Rightarrow> string \<Rightarrow> bool" where
  "str_in sub [] = (sub = [])"
| "str_in sub (c # cs) = (take (length sub) (c # cs) = sub \<or> str_in sub cs)"

text \<open>
  The regular expression \<^verbatim>\<open>\{([^}]*)\}\<close>: an opening brace, the longest run of
  characters other than a closing brace, a closing brace. An opening brace with no
  closing brace after it matches nothing, and the scan goes on behind it.
  \<^verbatim>\<open>re.findall\<close> returns the text between the braces of every match, left to right;
  \<^verbatim>\<open>re.sub\<close> with the empty replacement deletes every match.
\<close>

function re_findall :: "string \<Rightarrow> string list" where
  "re_findall [] = []"
| "re_findall (c # cs) =
     (if c = CHR ''{'' then
        (case dropWhile (\<lambda>x. x \<noteq> CHR ''}'') cs of
           [] \<Rightarrow> re_findall cs
         | _ # rest \<Rightarrow> takeWhile (\<lambda>x. x \<noteq> CHR ''}'') cs # re_findall rest)
      else re_findall cs)"
  by pat_completeness auto
termination
proof (relation "measure length")
  fix c :: char and cs x21 x22
  assume "dropWhile (\<lambda>x. x \<noteq> CHR ''}'') cs = x21 # x22"
  then have "length (x21 # x22) \<le> length cs"
    by (metis length_dropWhile_le)
  then show "(x22, c # cs) \<in> measure length" by simp
qed auto

function re_sub :: "string \<Rightarrow> string" where
  "re_sub [] = []"
| "re_sub (c # cs) =
     (if c = CHR ''{'' then
        (case dropWhile (\<lambda>x. x \<noteq> CHR ''}'') cs of
           [] \<Rightarrow> c # re_sub cs
         | _ # rest \<Rightarrow> re_sub rest)
      else c # re_sub cs)"
  by pat_completeness auto
termination
proof (relation "measure length")
  fix c :: char and cs x21 x22
  assume "dropWhile (\<lambda>x. x \<noteq> CHR ''}'') cs = x21 # x22"
  then have "length (x21 # x22) \<le> length cs"
    by (metis length_dropWhile_le)
  then show "(x22, c # cs) \<in> measure length" by simp
qed auto

text \<open>\<^verbatim>\<open>s.replace('%%', '')\<close>: the occurrences are taken left to right, without overlap.\<close>

fun replace_percent :: "string \<Rightarrow> string" where
  "replace_percent (a # b # cs) =
     (if a = CHR ''%'' \<and> b = CHR ''%'' then replace_percent cs
      else a # replace_percent (b # cs))"
| "replace_percent cs = cs"

text \<open>\<^verbatim>\<open>s.split('/')[-1].replace('_', ' ')\<close>: what follows the last slash, underscores as spaces.\<close>

definition friendly_name :: "string \<Rightarrow> string" where
  "friendly_name s =
     map (\<lambda>c. if c = CHR ''_'' then CHR '' '' else c)
       (rev (takeWhile (\<lambda>c. c \<noteq> CHR ''/'') (rev s)))"

subsection \<open>Data\<close>

text \<open>A configuration value that may be one string or a list of strings.\<close>

datatype str_or_list = Str string | Lst "string list"

text \<open>
  The class attributes as the user's configuration sets them, before
  \<^verbatim>\<open>post_config_hook\<close> runs.
\<close>

record config =
  cfg_blocks :: "string list"
  cfg_block_hours :: rat
  cfg_button_change_format :: int
  cfg_button_change_time_format :: int
  cfg_button_reset :: int
  cfg_cycle :: rat
  cfg_format :: str_or_list
  cfg_format_time :: str_or_list

text \<open>
  What \<^verbatim>\<open>self._items\<close> holds for a token: the string \<^verbatim>\<open>'?'\<close>, or a time zone object,
  which the model identifies with its attribute \<^verbatim>\<open>zone\<close>, the canonical name.
\<close>

datatype tz = Unresolved | Zone string

text \<open>
  The object after \<^verbatim>\<open>post_config_hook\<close>. The dictionary \<^verbatim>\<open>_items\<close> is an association
  list in insertion order. The indices \<^verbatim>\<open>active\<close> and \<^verbatim>\<open>active_time_format\<close> start at
  0 and are only ever incremented, reduced modulo a length or reset to 0, so they are
  naturals.
\<close>

record py3status =
  blocks :: "string list"
  block_hours :: rat
  button_change_format :: int
  button_change_time_format :: int
  button_reset :: int
  cycle :: rat
  format :: "string list"
  format_time :: "string list"
  items :: "(string \<times> tz) list"
  multiple_tz :: bool
  time_deltas :: "int list"
  active_time_format :: nat
  cycle_time :: rat
  active :: nat

text \<open>The fields of \<^verbatim>\<open>datetime.now(zone)\<close>.\<close>

record datetime =
  year :: int
  month :: int
  day :: int
  hour :: int
  minute :: int
  second :: int
  microsecond :: int

text \<open>
  The collaborators. \<open>get_localzone\<close> is \<open>None\<close> when \<^verbatim>\<open>tzlocal.get_localzone()\<close>
  raises \<^verbatim>\<open>UnknownTimeZoneError\<close>; \<open>country_timezones\<close> is \<open>None\<close> when
  \<^verbatim>\<open>pytz.country_timezones\<close> raises \<^verbatim>\<open>KeyError\<close>; \<open>timezone\<close> is \<open>None\<close> when
  \<^verbatim>\<open>pytz.timezone\<close> raises \<^verbatim>\<open>UnknownTimeZoneError\<close>. A parameter of \<open>safe_format\<close>
  is \<open>None\<close> for Python's \<^verbatim>\<open>None\<close>.
\<close>

record env =
  get_localzone :: "string option"
  country_timezones :: "string \<Rightarrow> string list option"
  timezone :: "string \<Rightarrow> string option"
  safe_format :: "string \<Rightarrow> (string \<times> string option) list \<Rightarrow> string"
  strftime :: "datetime \<Rightarrow> string \<Rightarrow> string"
  is_python_2 :: bool
  encode_utf8 :: "string \<Rightarrow> string"

text \<open>A click event; the module reads \<^verbatim>\<open>event['button']\<close> only.\<close>

record event =
  button :: int

text \<open>
  The clock readings of one call of \<^verbatim>\<open>clock\<close>: \<open>t_due\<close> is the \<^verbatim>\<open>time()\<close> compared
  with the cycle deadline, \<open>t_rearm\<close> the \<^verbatim>\<open>time()\<close> the deadline is re-armed from,
  \<open>now_in\<close> is \<^verbatim>\<open>datetime.now(zone)\<close>, and \<open>t_now\<close> the \<^verbatim>\<open>time()\<close> the timeout is
  worked out from.
\<close>

record readings =
  t_due :: rat
  t_rearm :: rat
  now_in :: "string \<Rightarrow> datetime"
  t_now :: rat

text \<open>The dictionary \<^verbatim>\<open>clock\<close> returns.\<close>

record response =
  full_text :: string
  cached_until :: rat

subsection \<open>Initialisation\<close>

text \<open>
  \<^verbatim>\<open>_get_timezone\<close> (lines 152 to 178). \<^verbatim>\<open>zones[0]\<close> stands outside the \<^verbatim>\<open>try\<close>: an
  empty list of zones raises \<^verbatim>\<open>IndexError\<close>.
\<close>

definition pytz_timezone :: "env \<Rightarrow> string \<Rightarrow> tz" where
  "pytz_timezone e tz = (case timezone e tz of None \<Rightarrow> Unresolved | Some z \<Rightarrow> Zone z)"

definition get_timezone :: "env \<Rightarrow> string \<Rightarrow> error + tz" where
  "get_timezone e tz =
     (if tz = ''Local'' then
        (case get_localzone e of None \<Rightarrow> Inr Unresolved | Some z \<Rightarrow> Inr (Zone z))
      else if length tz = 2 then
        (case country_timezones e tz of
           None \<Rightarrow> Inr Unresolved
         | Some zones \<Rightarrow>
             (case py_index zones 0 of
                Inl x \<Rightarrow> Inl x
              | Inr tz' \<Rightarrow> Inr (pytz_timezone e tz')))
      else Inr (pytz_timezone e tz))"

text \<open>
  The loop \<^verbatim>\<open>for match in matches\<close> that fills \<^verbatim>\<open>self._items\<close> (lines 117 and 118).
  Assigning to a key the dictionary has keeps the key's place; a new key goes to the
  end.
\<close>

fun fill_items :: "env \<Rightarrow> string list \<Rightarrow> (string \<times> tz) list \<Rightarrow> error + (string \<times> tz) list" where
  "fill_items e [] its = Inr its"
| "fill_items e (m # ms) its =
     (case get_timezone e m of
        Inl x \<Rightarrow> Inl x
      | Inr z \<Rightarrow> fill_items e ms (AList.update m z its))"

text \<open>The body of the loop \<^verbatim>\<open>for format in self.format_time\<close> (lines 129 to 144).\<close>

definition time_delta :: "string \<Rightarrow> int" where
  "time_delta fmt =
     (let ft = re_sub fmt;
          ft = replace_percent ft
      in if str_in ''%f'' ft then 0
         else if str_in ''%S'' ft then 1
         else if str_in ''%c'' ft then 1
         else if str_in ''%X'' ft then 1
         else 60)"

definition as_list :: "str_or_list \<Rightarrow> string list" where
  "as_list v = (case v of Str s \<Rightarrow> [s] | Lst l \<Rightarrow> l)"

text \<open>\<^verbatim>\<open>post_config_hook\<close> (lines 107 to 150); \<open>t0\<close> is its one call of \<^verbatim>\<open>time()\<close>.\<close>

definition post_config_hook :: "env \<Rightarrow> config \<Rightarrow> rat \<Rightarrow> error + py3status" where
  "post_config_hook e c t0 =
     (let fmt = as_list (cfg_format c);
          cyc = (if length fmt = 1 then 0 else cfg_cycle c);
          matches = re_findall (concat fmt)
      in case fill_items e matches [] of
           Inl x \<Rightarrow> Inl x
         | Inr its \<Rightarrow>
             (let ft = as_list (cfg_format_time c)
              in Inr \<lparr> blocks = cfg_blocks c,
                       block_hours = cfg_block_hours c,
                       button_change_format = cfg_button_change_format c,
                       button_change_time_format = cfg_button_change_time_format c,
                       button_reset = cfg_button_reset c,
                       cycle = cyc,
                       format = fmt,
                       format_time = ft,
                       items = its,
                       multiple_tz = (length its > 1),
                       time_deltas = map time_delta ft,
                       active_time_format = 0,
                       cycle_time = t0 + cyc,
                       active = 0 \<rparr>))"

subsection \<open>Clicks\<close>

text \<open>
  \<^verbatim>\<open>_change_active\<close> (lines 180 and 181). A modulus of 0 raises before \<^verbatim>\<open>self.active\<close> is assigned, so
  the object is then as it was.
\<close>

definition change_active :: "py3status \<Rightarrow> nat \<Rightarrow> error + py3status" where
  "change_active s diff =
     (if length (format s) = 0 then Inl ZeroDivisionError
      else Inr (s\<lparr>active := (active s + diff) mod length (format s)\<rparr>))"

text \<open>
  \<^verbatim>\<open>on_click\<close> (lines 183 to 197); \<open>t\<close> is the \<^verbatim>\<open>time()\<close> of the reset branch. The
  arguments \<^verbatim>\<open>i3s_output_list\<close> and \<^verbatim>\<open>i3s_config\<close> are not read.
\<close>

definition on_click :: "py3status \<Rightarrow> event \<Rightarrow> rat \<Rightarrow> error + py3status" where
  "on_click s ev t =
     (if button ev = button_reset s then
        Inr (s\<lparr>active := 0, cycle_time := t + cycle s\<rparr>)
      else if button ev = button_change_time_format s then
        (let s1 = s\<lparr>active_time_format := active_time_format s + 1\<rparr>
         in if active_time_format s1 \<ge> length (format_time s1)
            then Inr (s1\<lparr>active_time_format := 0\<rparr>)
            else Inr s1)
      else if button ev = button_change_format s then change_active s 1
      else Inr s)"

subsection \<open>Polls\<close>

text \<open>
  The block \<^verbatim>\<open># cycling\<close> of \<^verbatim>\<open>clock\<close> (lines 201 to 204). \<^verbatim>\<open>if self.cycle\<close> holds for
  every number but 0.
\<close>

definition cycling :: "py3status \<Rightarrow> readings \<Rightarrow> error + py3status" where
  "cycling s r =
     (if cycle s \<noteq> 0 \<and> t_due r \<ge> cycle_time s then
        (case change_active s 1 of
           Inl x \<Rightarrow> Inl x
         | Inr s1 \<Rightarrow> Inr (s1\<lparr>cycle_time := t_rearm r + cycle s1\<rparr>))
      else Inr s)"

text \<open>
  The index of the glyph (lines 216 to 221): the decimal hour, reduced modulo \<^verbatim>\<open>block_hours\<close>, as a
  fraction of \<^verbatim>\<open>block_hours\<close>, scaled by the number of glyphs and rounded down.
\<close>

definition icon_index :: "py3status \<Rightarrow> datetime \<Rightarrow> error + int" where
  "icon_index s t =
     (let h = of_int (hour t) + of_int (minute t) / 60
      in case py_mod h (block_hours s) of
           Inl x \<Rightarrow> Inl x
         | Inr h \<Rightarrow> Inr \<lfloor>h / block_hours s * of_nat (length (blocks s))\<rfloor>)"

text \<open>\<^verbatim>\<open>self.blocks[idx]\<close> (line 222), where a negative index counts from the end.\<close>

definition block_at :: "string list \<Rightarrow> int \<Rightarrow> error + string" where
  "block_at bs idx =
     (let n = int (length bs); j = (if idx < 0 then n + idx else idx)
      in if 0 \<le> j \<and> j < n then Inr (bs ! nat j) else Inl IndexError)"

text \<open>
  The \<^verbatim>\<open>else\<close> branch of the loop over \<^verbatim>\<open>self._items\<close> (lines 212 to 239): one resolved
  zone.
\<close>

definition render_zone :: "env \<Rightarrow> py3status \<Rightarrow> readings \<Rightarrow> string \<Rightarrow> error + string" where
  "render_zone e s r zone =
     (let t = now_in r zone
      in case py_index (format_time s) (active_time_format s) of
           Inl x \<Rightarrow> Inl x
         | Inr ft \<Rightarrow>
             (case (if str_in ''{icon}'' ft
                    then (case icon_index s t of
                            Inl x \<Rightarrow> Inl x
                          | Inr idx \<Rightarrow> map_sum id Some (block_at (blocks s) idx))
                    else Inr None) of
                Inl x \<Rightarrow> Inl x
              | Inr icon \<Rightarrow>
                  (let tzname = friendly_name zone;
                       name_or_none = (if multiple_tz s then Some tzname else None);
                       ft = safe_format e ft
                         [(''icon'', icon), (''name'', Some tzname),
                          (''name_'', name_or_none), (''timezone'', Some zone)]
                   in Inr (strftime e t (if is_python_2 e then encode_utf8 e ft else ft)))))"

text \<open>
  The loop over \<^verbatim>\<open>self._items.items()\<close> that fills \<^verbatim>\<open>times\<close> (lines 207 to 239). It
  goes through every token of the table, not only those of the active slot.
\<close>

fun update_times ::
  "env \<Rightarrow> py3status \<Rightarrow> readings \<Rightarrow> (string \<times> tz) list \<Rightarrow> (string \<times> string) list
    \<Rightarrow> error + (string \<times> string) list" where
  "update_times e s r [] tms = Inr tms"
| "update_times e s r ((name, zone) # rest) tms =
     (case zone of
        Unresolved \<Rightarrow> update_times e s r rest (AList.update name ''?'' tms)
      | Zone z \<Rightarrow>
          (case render_zone e s r z of
             Inl x \<Rightarrow> Inl x
           | Inr rendered \<Rightarrow> update_times e s r rest (AList.update name rendered tms)))"

text \<open>
  \<^verbatim>\<open>clock\<close> after its cycling block (lines 206 to 257): the times, the timeout, the
  returned dictionary.
\<close>

definition clock_response :: "env \<Rightarrow> py3status \<Rightarrow> readings \<Rightarrow> error + response" where
  "clock_response e s r =
     (case update_times e s r (items s) [] of
        Inl x \<Rightarrow> Inl x
      | Inr tms \<Rightarrow>
          (let now = t_now r
           in case py_index (time_deltas s) (active_time_format s) of
                Inl x \<Rightarrow> Inl x
              | Inr delta \<Rightarrow>
                  (let timeout = (if delta \<noteq> 0
                                  then now + of_int delta - fmod now (of_int delta)
                                  else 0);
                       timeout = (if cycle s \<noteq> 0
                                  then min timeout (cycle_time s)
                                  else timeout)
                   in case py_index (format s) (active s) of
                        Inl x \<Rightarrow> Inl x
                      | Inr f \<Rightarrow>
                          Inr \<lparr> full_text = safe_format e f (map (\<lambda>(k, v). (k, Some v)) tms),
                                cached_until = timeout \<rparr>)))"

text \<open>
  \<^verbatim>\<open>clock\<close> (lines 199 to 257). The object keeps what the cycling block assigned also when a later
  statement raises, so the object after the call is returned beside the result.
\<close>

definition clock :: "env \<Rightarrow> py3status \<Rightarrow> readings \<Rightarrow> (error + response) \<times> py3status" where
  "clock e s r =
     (case cycling s r of
        Inl x \<Rightarrow> (Inl x, s)
      | Inr s1 \<Rightarrow> (clock_response e s1 r, s1))"

subsection \<open>Sequences of calls\<close>

text \<open>
  The host calls \<^verbatim>\<open>on_click\<close> and \<^verbatim>\<open>clock\<close> one after the other on the same object.
\<close>

datatype call = Click event rat | Poll readings

fun step :: "env \<Rightarrow> py3status \<Rightarrow> call \<Rightarrow> py3status" where
  "step e s (Click ev t) = (case on_click s ev t of Inl x \<Rightarrow> s | Inr s1 \<Rightarrow> s1)"
| "step e s (Poll r) = snd (clock e s r)"

definition run :: "env \<Rightarrow> py3status \<Rightarrow> call list \<Rightarrow> py3status" where
  "run e s cs = foldl (step e) s cs"

subsection \<open>Notions the properties are stated with\<close>


text \<open>
  The lookups that fail: the local zone cannot be determined; a two-letter token is
  no country code; the zone name, which is the token itself or the first zone of the
  country, is unknown.
\<close>

definition lookup_fails :: "env \<Rightarrow> string \<Rightarrow> bool" where
  "lookup_fails e tok \<longleftrightarrow>
     (tok = ''Local'' \<and> get_localzone e = None)
     \<or> (tok \<noteq> ''Local'' \<and> length tok = 2 \<and> country_timezones e tok = None)
     \<or> (tok \<noteq> ''Local'' \<and> length tok \<noteq> 2 \<and> timezone e tok = None)
     \<or> (tok \<noteq> ''Local'' \<and> length tok = 2
          \<and> (\<exists>z zs. country_timezones e tok = Some (z # zs) \<and> timezone e z = None))"

text \<open>The tokens of a configuration: what \<^verbatim>\<open>re.findall\<close> returns on the joined slots.\<close>

definition tokens :: "config \<Rightarrow> string list" where
  "tokens c = re_findall (concat (as_list (cfg_format c)))"

text \<open>
  Two objects have the same settings when they differ at most in the active slot, the
  active time format and the cycle deadline.
\<close>

definition same_settings :: "py3status \<Rightarrow> py3status \<Rightarrow> bool" where
  "same_settings s s1 \<longleftrightarrow>
     blocks s1 = blocks s \<and> block_hours s1 = block_hours s
     \<and> button_change_format s1 = button_change_format s
     \<and> button_change_time_format s1 = button_change_time_format s
     \<and> button_reset s1 = button_reset s \<and> cycle s1 = cycle s
     \<and> format s1 = format s \<and> format_time s1 = format_time s \<and> items s1 = items s
     \<and> multiple_tz s1 = multiple_tz s \<and> time_deltas s1 = time_deltas s"

text \<open>The two indices are within their lists, and there is a granularity for each time format.\<close>

definition in_range :: "py3status \<Rightarrow> bool" where
  "in_range s \<longleftrightarrow>
     active s < length (format s) \<and> active_time_format s < length (format_time s)
     \<and> length (time_deltas s) = length (format_time s)"

text \<open>
  A host that polls on time: every poll reads one clock value for its cycling block,
  the polls come in the order of time, and none comes later than the cycle deadline the
  object holds when it is made. \<open>prev\<close> is the time of the poll before.
\<close>

fun punctual :: "env \<Rightarrow> py3status \<Rightarrow> rat \<Rightarrow> readings list \<Rightarrow> bool" where
  "punctual e s prev [] = True"
| "punctual e s prev (r # rs) =
     (t_due r = t_rearm r \<and> prev \<le> t_due r \<and> t_due r \<le> cycle_time s
      \<and> punctual e (snd (clock e s r)) (t_due r) rs)"

subsection \<open>The defaults of the class, and the values the examples use\<close>

text \<open>
  \<^verbatim>\<open>CLOCK_BLOCKS\<close>: twenty-four clock faces, starting at twelve o'clock, half an hour
  apart. Each is the four bytes \<open>F0 9F 95 xx\<close>.
\<close>

definition clock_face :: "char \<Rightarrow> string" where
  "clock_face b = [CHR 0xF0, CHR 0x9F, CHR 0x95, b]"

definition CLOCK_BLOCKS :: "string list" where
  "CLOCK_BLOCKS = map clock_face
     [CHR 0x9B, CHR 0xA7, CHR 0x90, CHR 0x9C, CHR 0x91, CHR 0x9D, CHR 0x92, CHR 0x9E,
      CHR 0x93, CHR 0x9F, CHR 0x94, CHR 0xA0, CHR 0x95, CHR 0xA1, CHR 0x96, CHR 0xA2,
      CHR 0x97, CHR 0xA3, CHR 0x98, CHR 0xA4, CHR 0x99, CHR 0xA5, CHR 0x9A, CHR 0xA6]"

text \<open>The class attributes as the source declares them.\<close>

definition default_config :: config where
  "default_config =
     \<lparr> cfg_blocks = CLOCK_BLOCKS,
       cfg_block_hours = 12,
       cfg_button_change_format = 1,
       cfg_button_change_time_format = 2,
       cfg_button_reset = 3,
       cfg_cycle = 0,
       cfg_format = Str ''{Local}'',
       cfg_format_time = Lst [''[{name_} ]%c'', ''[{name_} ]%x %X'',
                              ''[{name_} ]%a %H:%M'', ''[{name_} ]{icon}''] \<rparr>"

text \<open>
  A small world for the examples: the local zone is known, two country codes and four
  zone names are known, \<open>safe_format\<close> returns its template followed by every
  parameter that has a value, written \<open>key=value\<close>, and \<open>strftime\<close> returns its
  format.
\<close>

definition show_params :: "string \<Rightarrow> (string \<times> string option) list \<Rightarrow> string" where
  "show_params f ps =
     f @ concat (map (\<lambda>(k, v). case v of None \<Rightarrow> [] | Some x \<Rightarrow> '' '' @ k @ ''='' @ x) ps)"

definition test_env :: env where
  "test_env =
     \<lparr> get_localzone = Some ''Europe/Berlin'',
       country_timezones = (\<lambda>c. if c = ''de'' then Some [''Europe/Berlin'']
                                 else if c = ''us'' then Some [''America/New_York'', ''America/Chicago'']
                                 else None),
       timezone = (\<lambda>n. if n \<in> set [''Europe/Berlin'', ''Europe/London'', ''Asia/Tokyo'',
                                       ''America/New_York'']
                          then Some n else None),
       safe_format = show_params,
       strftime = (\<lambda>t f. f),
       is_python_2 = False,
       encode_utf8 = (\<lambda>x. x) \<rparr>"

text \<open>The same world with an undeterminable local zone.\<close>

definition lost_env :: env where
  "lost_env = test_env\<lparr>get_localzone := None\<rparr>"

definition at_time :: "int \<Rightarrow> int \<Rightarrow> datetime" where
  "at_time h m = \<lparr> year = 2016, month = 7, day = 1, hour = h, minute = m,
                    second = 0, microsecond = 0 \<rparr>"

text \<open>A poll whose every \<^verbatim>\<open>time()\<close> reads \<open>t\<close>, at the wall-clock time \<open>h:m\<close> in every zone.\<close>

definition poll_at :: "rat \<Rightarrow> int \<Rightarrow> int \<Rightarrow> readings" where
  "poll_at t h m = \<lparr> t_due = t, t_rearm = t, now_in = (\<lambda>z. at_time h m), t_now = t \<rparr>"

text \<open>
  Three slots cycled every ten seconds, the last one with a country code and an
  unknown zone; the three buttons are the parameters, in the order change of format,
  change of time format, reset.
\<close>

definition with_buttons :: "int \<Rightarrow> int \<Rightarrow> int \<Rightarrow> config" where
  "with_buttons f tf rs = default_config
     \<lparr> cfg_button_change_format := f,
       cfg_button_change_time_format := tf,
       cfg_button_reset := rs,
       cfg_cycle := 10,
       cfg_format := Lst [''{Europe/London}'', ''{Asia/Tokyo}'', ''{de} {Mars/Base}''] \<rparr>"

text \<open>
  The buttons of the class; no button for the reset; one button for the reset and the
  change of time format; no button at all.
\<close>

definition three_slots :: config where
  "three_slots = with_buttons 1 2 3"


definition shared_button :: config where
  "shared_button = with_buttons 1 3 3"


text \<open>The object a configuration gives when it is initialised at time 0.\<close>

definition started :: "env \<Rightarrow> config \<Rightarrow> py3status" where
  "started e c = projr (post_config_hook e c 0)"

definition press :: "int \<Rightarrow> rat \<Rightarrow> call" where
  "press b t = Click \<lparr> button = b \<rparr> t"

text \<open>After two clicks on button 1 the third slot is active.\<close>

definition on_third :: "config \<Rightarrow> py3status" where
  "on_third c = run test_env (started test_env c) [press 1 1, press 1 2]"

text \<open>The defaults of the class with a cycle of ten seconds configured: one slot.\<close>

definition single_slot :: config where
  "single_slot = default_config\<lparr>cfg_cycle := 10\<rparr>"

text \<open>
  Two slots whose three tokens all fail in \<open>lost_env\<close>: the local zone, a code that is
  no country, an unknown zone name.
\<close>

definition lost_slots :: config where
  "lost_slots = default_config\<lparr>cfg_format := Lst [''{Local} {zz}'', ''{Mars/Base}'']\<rparr>"

text \<open>
  A world whose country table holds an empty list for every code, and a slot with
  the local zone and an unknown one under a \<^verbatim>\<open>block_hours\<close> of 0.
\<close>

definition hollow_env :: env where
  "hollow_env = test_env\<lparr>country_timezones := (\<lambda>c. Some [])\<rparr>"

definition zero_hours :: config where
  "zero_hours = default_config\<lparr>cfg_block_hours := 0, cfg_format := Str ''{Local} {Mars/Base}''\<rparr>"

text \<open>The defaults of the class with an empty list of slots, and with an empty list of time formats.\<close>

definition no_slots :: config where
  "no_slots = default_config\<lparr>cfg_format := Lst []\<rparr>"

definition no_time_formats :: config where
  "no_time_formats = default_config\<lparr>cfg_format_time := Lst []\<rparr>"

text \<open>After two clicks on button 2 the third time format is active.\<close>

definition on_minutes :: "config \<Rightarrow> py3status" where
  "on_minutes c = run test_env (started test_env c) [press 2 1, press 2 2]"

text \<open>After three clicks on button 2 the time format with the icon is active.\<close>

definition on_icon :: "config \<Rightarrow> py3status" where
  "on_icon c = run test_env (started test_env c) [press 2 1, press 2 2, press 2 3]"

section \<open>Properties\<close>

subsection \<open>Arithmetic\<close>

text \<open>On integers the float remainder is the integer remainder.\<close>

lemma fmod_of_int: "fmod (of_int X) (of_int g) = of_int (X mod g)"
proof -
  have "\<lfloor>(of_int X :: rat) / of_int g\<rfloor> = X div g"
    by (rule floor_divide_of_int_eq)
  then have "fmod (of_int X) (of_int g) = of_int X - of_int g * of_int (X div g)"
    by (simp add: fmod_def)
  also have "\<dots> = of_int (X - g * (X div g))" by simp
  also have "X - g * (X div g) = X mod g" by (simp add: minus_mult_div_eq_mod)
  finally show ?thesis .
qed

lemma floor_numeral_div_rat: "\<lfloor>(numeral a :: rat) / numeral b\<rfloor> = numeral a div numeral b"
  using floor_divide_of_int_eq [of "numeral a" "numeral b", where ?'a = rat] by simp

lemma fmod_numeral: "fmod (numeral a) (numeral b) = of_int (numeral a mod numeral b)"
  using fmod_of_int [of "numeral a" "numeral b"] by simp

subsection \<open>The example objects, evaluated once\<close>

lemma init_with_buttons:
  "post_config_hook test_env (with_buttons f tf rs) 0 =
     Inr \<lparr> blocks = CLOCK_BLOCKS, block_hours = 12,
       button_change_format = f, button_change_time_format = tf, button_reset = rs,
       cycle = 10,
       format = [''{Europe/London}'', ''{Asia/Tokyo}'', ''{de} {Mars/Base}''],
       format_time = [''[{name_} ]%c'', ''[{name_} ]%x %X'',
                      ''[{name_} ]%a %H:%M'', ''[{name_} ]{icon}''],
       items = [(''Europe/London'', Zone ''Europe/London''), (''Asia/Tokyo'', Zone ''Asia/Tokyo''),
                (''de'', Zone ''Europe/Berlin''), (''Mars/Base'', Unresolved)],
       multiple_tz = True,
       time_deltas = [1, 1, 60, 60],
       active_time_format = 0, cycle_time = 10, active = 0 \<rparr>"
  by (simp add: with_buttons_def default_config_def test_env_def
      post_config_hook_def as_list_def get_timezone_def pytz_timezone_def py_index_def
      time_delta_def)

lemma started_with_buttons:
  "started test_env (with_buttons f tf rs) =
     \<lparr> blocks = CLOCK_BLOCKS, block_hours = 12,
       button_change_format = f, button_change_time_format = tf, button_reset = rs,
       cycle = 10,
       format = [''{Europe/London}'', ''{Asia/Tokyo}'', ''{de} {Mars/Base}''],
       format_time = [''[{name_} ]%c'', ''[{name_} ]%x %X'',
                      ''[{name_} ]%a %H:%M'', ''[{name_} ]{icon}''],
       items = [(''Europe/London'', Zone ''Europe/London''), (''Asia/Tokyo'', Zone ''Asia/Tokyo''),
                (''de'', Zone ''Europe/Berlin''), (''Mars/Base'', Unresolved)],
       multiple_tz = True,
       time_deltas = [1, 1, 60, 60],
       active_time_format = 0, cycle_time = 10, active = 0 \<rparr>"
  by (simp add: started_def init_with_buttons)

lemma init_started:
  "post_config_hook test_env (with_buttons f tf rs) 0 = Inr (started test_env (with_buttons f tf rs))"
  by (simp add: started_def init_with_buttons)

lemma on_third_with_buttons:
  "on_third (with_buttons 1 tf rs) = (started test_env (with_buttons 1 tf rs))\<lparr>active := 2\<rparr>"
  if "tf \<noteq> 1" "rs \<noteq> 1"
  using that
  by (simp add: on_third_def run_def press_def on_click_def change_active_def
      started_with_buttons)

lemma on_third_three_slots:
  "on_third three_slots = (started test_env (with_buttons 1 2 3))\<lparr>active := 2\<rparr>"
  by (simp add: three_slots_def on_third_with_buttons)

lemma init_default:
  "post_config_hook test_env default_config t0 =
     Inr \<lparr> blocks = CLOCK_BLOCKS, block_hours = 12,
       button_change_format = 1, button_change_time_format = 2, button_reset = 3,
       cycle = 0,
       format = [''{Local}''],
       format_time = [''[{name_} ]%c'', ''[{name_} ]%x %X'',
                      ''[{name_} ]%a %H:%M'', ''[{name_} ]{icon}''],
       items = [(''Local'', Zone ''Europe/Berlin'')],
       multiple_tz = False,
       time_deltas = [1, 1, 60, 60],
       active_time_format = 0, cycle_time = t0, active = 0 \<rparr>"
  by (simp add: default_config_def test_env_def
      post_config_hook_def as_list_def get_timezone_def pytz_timezone_def py_index_def
      time_delta_def)

lemma on_minutes_default:
  "on_minutes default_config = (projr (post_config_hook test_env default_config 0))\<lparr>active_time_format := 2\<rparr>"
  by (simp add: on_minutes_def started_def init_default run_def press_def on_click_def)

lemma on_minutes_three_slots:
  "on_minutes three_slots = (started test_env (with_buttons 1 2 3))\<lparr>active_time_format := 2\<rparr>"
  by (simp add: on_minutes_def three_slots_def started_with_buttons run_def press_def on_click_def)

lemma test_env_fields:
  "safe_format test_env = show_params" "strftime test_env = (\<lambda>t f. f)"
  "is_python_2 test_env = False"
  by (simp_all add: test_env_def)


lemma poll_default:
  "clock test_env (on_minutes default_config) (poll_at 125 6 0)
     = (Inr \<lparr>full_text = ''{Local} Local=[{name_} ]%a %H:%M name=Berlin timezone=Europe/Berlin'',
             cached_until = 180\<rparr>,
        on_minutes default_config)"
  by (simp add: on_minutes_default init_default clock_def cycling_def clock_response_def
      render_zone_def py_index_def test_env_fields poll_at_def fmod_numeral show_params_def
      friendly_name_def)

lemma poll_three_slots:
  "clock test_env (on_minutes three_slots) (poll_at 125 6 0)
     = (Inr \<lparr>full_text = ''{Asia/Tokyo} Europe/London=[{name_} ]%a %H:%M name=London name_=London timezone=Europe/London Asia/Tokyo=[{name_} ]%a %H:%M name=Tokyo name_=Tokyo timezone=Asia/Tokyo de=[{name_} ]%a %H:%M name=Berlin name_=Berlin timezone=Europe/Berlin Mars/Base=?'',
             cached_until = 135\<rparr>,
        (on_minutes three_slots)\<lparr>active := 1, cycle_time := 135\<rparr>)"
  by (simp add: on_minutes_three_slots started_with_buttons clock_def cycling_def clock_response_def
      render_zone_def py_index_def test_env_fields poll_at_def fmod_numeral change_active_def
      show_params_def friendly_name_def)


lemma CLOCK_BLOCKS_facts:
  "length CLOCK_BLOCKS = 24" "CLOCK_BLOCKS \<noteq> []" "CLOCK_BLOCKS ! 23 = clock_face (CHR 0xA6)"
  by (simp_all add: CLOCK_BLOCKS_def)

lemma init_single_slot:
  "post_config_hook test_env single_slot t0 = post_config_hook test_env default_config t0"
  unfolding init_default
  by (simp add: single_slot_def default_config_def test_env_def
      post_config_hook_def as_list_def get_timezone_def pytz_timezone_def py_index_def
      time_delta_def)

lemma started_single_slot: "started test_env single_slot = started test_env default_config"
  by (simp add: started_def init_single_slot)

lemma init_lost:
  "post_config_hook lost_env lost_slots 0 =
     Inr \<lparr> blocks = CLOCK_BLOCKS, block_hours = 12,
       button_change_format = 1, button_change_time_format = 2, button_reset = 3,
       cycle = 0,
       format = [''{Local} {zz}'', ''{Mars/Base}''],
       format_time = [''[{name_} ]%c'', ''[{name_} ]%x %X'',
                      ''[{name_} ]%a %H:%M'', ''[{name_} ]{icon}''],
       items = [(''Local'', Unresolved), (''zz'', Unresolved), (''Mars/Base'', Unresolved)],
       multiple_tz = True,
       time_deltas = [1, 1, 60, 60],
       active_time_format = 0, cycle_time = 0, active = 0 \<rparr>"
  by (simp add: lost_slots_def lost_env_def default_config_def test_env_def
      post_config_hook_def as_list_def get_timezone_def pytz_timezone_def py_index_def
      time_delta_def)

lemma lost_facts:
  "lookup_fails lost_env ''Local''" "lookup_fails lost_env ''zz''"
  "lookup_fails lost_env ''Mars/Base''"
  "tokens lost_slots = [''Local'', ''zz'', ''Mars/Base'']"
  by (simp_all add: lookup_fails_def lost_env_def test_env_def tokens_def lost_slots_def
      default_config_def as_list_def)

lemma lost_env_fields:
  "safe_format lost_env = show_params" "strftime lost_env = (\<lambda>t f. f)"
  "is_python_2 lost_env = False"
  by (simp_all add: lost_env_def test_env_def)

lemma run_lost:
  "run lost_env (started lost_env lost_slots) [press 2 1, press 2 2]
     = (started lost_env lost_slots)\<lparr>active_time_format := 2\<rparr>"
  by (simp add: started_def init_lost run_def press_def on_click_def)

lemma poll_lost:
  "clock lost_env ((started lost_env lost_slots)\<lparr>active_time_format := 2\<rparr>) (poll_at 5 6 0)
     = (Inr \<lparr>full_text = ''{Local} {zz} Local=? zz=? Mars/Base=?'', cached_until = 60\<rparr>,
        (started lost_env lost_slots)\<lparr>active_time_format := 2\<rparr>)"
  by (simp add: started_def init_lost clock_def cycling_def clock_response_def
      py_index_def lost_env_fields poll_at_def fmod_numeral show_params_def)

lemma init_no_slots:
  "post_config_hook test_env no_slots 0 =
     Inr \<lparr> blocks = CLOCK_BLOCKS, block_hours = 12,
       button_change_format = 1, button_change_time_format = 2, button_reset = 3,
       cycle = 0,
       format = [],
       format_time = [''[{name_} ]%c'', ''[{name_} ]%x %X'',
                      ''[{name_} ]%a %H:%M'', ''[{name_} ]{icon}''],
       items = [],
       multiple_tz = False,
       time_deltas = [1, 1, 60, 60],
       active_time_format = 0, cycle_time = 0, active = 0 \<rparr>"
  by (simp add: no_slots_def default_config_def test_env_def
      post_config_hook_def as_list_def get_timezone_def pytz_timezone_def py_index_def
      time_delta_def)

lemma init_no_time_formats:
  "post_config_hook test_env no_time_formats 0 =
     Inr \<lparr> blocks = CLOCK_BLOCKS, block_hours = 12,
       button_change_format = 1, button_change_time_format = 2, button_reset = 3,
       cycle = 0,
       format = [''{Local}''],
       format_time = [],
       items = [(''Local'', Zone ''Europe/Berlin'')],
       multiple_tz = False,
       time_deltas = [],
       active_time_format = 0, cycle_time = 0, active = 0 \<rparr>"
  by (simp add: no_time_formats_def default_config_def test_env_def
      post_config_hook_def as_list_def get_timezone_def pytz_timezone_def py_index_def
      time_delta_def)

lemma test_env_countries: "\<forall>code. country_timezones test_env code \<noteq> Some []"
  by (simp add: test_env_def)

lemma init_hollow: "post_config_hook hollow_env three_slots 0 = Inl IndexError"
  by (simp add: hollow_env_def three_slots_def with_buttons_def default_config_def test_env_def
      post_config_hook_def as_list_def get_timezone_def pytz_timezone_def py_index_def)

lemma hollow_facts:
  "''de'' \<in> set (tokens three_slots)" "country_timezones hollow_env ''de'' = Some []"
  by (simp_all add: tokens_def three_slots_def with_buttons_def default_config_def as_list_def
      hollow_env_def test_env_def)

lemma init_zero_hours:
  "post_config_hook test_env zero_hours 0 =
     Inr \<lparr> blocks = CLOCK_BLOCKS, block_hours = 0,
       button_change_format = 1, button_change_time_format = 2, button_reset = 3,
       cycle = 0,
       format = [''{Local} {Mars/Base}''],
       format_time = [''[{name_} ]%c'', ''[{name_} ]%x %X'',
                      ''[{name_} ]%a %H:%M'', ''[{name_} ]{icon}''],
       items = [(''Local'', Zone ''Europe/Berlin''), (''Mars/Base'', Unresolved)],
       multiple_tz = True,
       time_deltas = [1, 1, 60, 60],
       active_time_format = 0, cycle_time = 0, active = 0 \<rparr>"
  by (simp add: zero_hours_def default_config_def test_env_def
      post_config_hook_def as_list_def get_timezone_def pytz_timezone_def py_index_def
      time_delta_def)

lemma on_icon_zero_hours:
  "on_icon zero_hours = (projr (post_config_hook test_env zero_hours 0))\<lparr>active_time_format := 3\<rparr>"
  by (simp add: on_icon_def started_def init_zero_hours run_def press_def on_click_def)

lemma render_zero_hours:
  "render_zone test_env (on_icon zero_hours) (poll_at 5 6 0) ''Europe/Berlin'' = Inl ZeroDivisionError"
  by (simp add: on_icon_zero_hours init_zero_hours render_zone_def
      py_index_def icon_index_def py_mod_def)

lemma poll_zero_hours:
  "fst (clock test_env (on_icon zero_hours) (poll_at 5 6 0)) = Inl ZeroDivisionError"
  by (simp add: on_icon_zero_hours init_zero_hours clock_def cycling_def
      clock_response_def render_zone_def py_index_def icon_index_def py_mod_def)

lemma zero_hours_facts:
  "tokens zero_hours = [''Local'', ''Mars/Base'']"
  "lookup_fails test_env ''Mars/Base''"
  "cfg_format_time zero_hours \<noteq> Lst []"
  by (simp_all add: tokens_def zero_hours_def default_config_def
      as_list_def lookup_fails_def test_env_def)

lemma zero_hours_items:
  "(''Local'', Zone ''Europe/Berlin'') \<in> set (items (on_icon zero_hours))"
  by (simp add: on_icon_zero_hours init_zero_hours)


subsection \<open>Strings\<close>



text \<open>
  What \<open>re_sub\<close> removes: every span from an opening brace to the first closing brace
  behind it, taken left to right; a string without such a span is left alone.
\<close>

lemma re_sub_no_open: "CHR ''{'' \<notin> set s \<Longrightarrow> re_sub s = s"
  by (induction s rule: re_sub.induct) auto

lemma re_sub_no_close: "CHR ''}'' \<notin> set s \<Longrightarrow> re_sub s = s"
proof (induction s)
  case Nil
  then show ?case by simp
next
  case (Cons c cs)
  from Cons.prems have "\<forall>x\<in>set cs. x \<noteq> CHR ''}''" by auto
  then have dw: "dropWhile (\<lambda>x. x \<noteq> CHR ''}'') cs = []" by simp
  from Cons have "re_sub cs = cs" by simp
  then show ?case by (simp add: dw)
qed

lemma re_sub_span:
  "CHR ''{'' \<notin> set pre \<Longrightarrow> CHR ''}'' \<notin> set body \<Longrightarrow>
     re_sub (pre @ ''{'' @ body @ ''}'' @ post) = pre @ re_sub post"
proof (induction pre)
  case Nil
  have "dropWhile (\<lambda>x. x \<noteq> CHR ''}'') (body @ CHR ''}'' # post) = CHR ''}'' # post"
    using Nil by (auto simp add: dropWhile_append3)
  then show ?case by simp
next
  case (Cons a pre)
  then show ?case by auto
qed

text \<open>What \<open>replace_percent\<close> removes: every pair of percent signs, left to right.\<close>

lemma replace_percent_none: "\<not> str_in ''%%'' s \<Longrightarrow> replace_percent s = s"
  by (induction s rule: replace_percent.induct) auto

lemma replace_percent_pair:
  "\<not> str_in ''%%'' (pre @ ''%'') \<Longrightarrow>
     replace_percent (pre @ ''%%'' @ post) = pre @ replace_percent post"
  by (induction pre rule: replace_percent.induct) auto

subsection \<open>What initialisation assigns\<close>

lemma post_config_hook_fields:
  assumes "post_config_hook e c t0 = Inr s"
  shows "format s = as_list (cfg_format c)"
    and "format_time s = as_list (cfg_format_time c)"
    and "time_deltas s = map time_delta (as_list (cfg_format_time c))"
    and "cycle s = (if length (as_list (cfg_format c)) = 1 then 0 else cfg_cycle c)"
    and "active s = 0" and "active_time_format s = 0"
    and "cycle_time s = t0 + cycle s"
    and "blocks s = cfg_blocks c" and "block_hours s = cfg_block_hours c"
    and "fill_items e (re_findall (concat (as_list (cfg_format c)))) [] = Inr (items s)"
  using assms by (auto simp add: post_config_hook_def Let_def split: sum.splits)

subsection \<open>The granularity of a time format\<close>



subsection \<open>The reset button\<close>

text \<open>
  C4. A click whose button is the configured reset button sets the active slot to 0
  and the cycle deadline to the current time plus the cycle interval, whatever the
  object was before; nothing else changes. The reset test is the first of the chain,
  so no other assignment of buttons can pre-empt it.
\<close>

theorem reset_click:
  "button ev = button_reset s \<Longrightarrow>
     on_click s ev t = Inr (s\<lparr>active := 0, cycle_time := t + cycle s\<rparr>)"
  by (simp add: on_click_def)

theorem reset_click_witness:
  "button \<lparr>button = 3\<rparr> = button_reset (on_third three_slots)
   \<and> active (on_third three_slots) = 2
   \<and> on_click (on_third three_slots) \<lparr>button = 3\<rparr> 50
       = Inr ((on_third three_slots)\<lparr>active := 0, cycle_time := 60\<rparr>)"
  using reset_click [of "\<lparr>button = 3\<rparr>" "on_third three_slots" 50]
  by (simp add: on_third_three_slots started_with_buttons)

subsection \<open>Clicks that do nothing, and buttons set to 0\<close>




subsection \<open>The buttons that advance\<close>

text \<open>
  C8, as the code has it. The three buttons are tested in the order reset, change of
  time format, change of format, and the first test that holds decides. A click on the
  change-time-format button that is not also the reset button moves the active time
  format to the next one, modulo the number of time formats, and changes nothing else.
  A click on the change-format button that is neither of the other two moves the
  active slot to the next one, modulo the number of slots, and changes nothing else;
  in particular the deadline stays. The active time format is below the number of
  time formats (it always is after initialisation with a non-empty list), and the
  slot list is not empty.
\<close>

theorem advance_click:
  "(button ev = button_change_time_format s \<and> button ev \<noteq> button_reset s
      \<and> active_time_format s < length (format_time s)
      \<longrightarrow> on_click s ev t
            = Inr (s\<lparr>active_time_format :=
                       (active_time_format s + 1) mod length (format_time s)\<rparr>))
   \<and> (button ev = button_change_format s \<and> button ev \<noteq> button_reset s
        \<and> button ev \<noteq> button_change_time_format s \<and> format s \<noteq> []
      \<longrightarrow> on_click s ev t = Inr (s\<lparr>active := (active s + 1) mod length (format s)\<rparr>))"
proof (intro conjI impI)
  assume a: "button ev = button_change_time_format s \<and> button ev \<noteq> button_reset s
      \<and> active_time_format s < length (format_time s)"
  show "on_click s ev t
      = Inr (s\<lparr>active_time_format := (active_time_format s + 1) mod length (format_time s)\<rparr>)"
  proof (cases "Suc (active_time_format s) = length (format_time s)")
    case True
    with a show ?thesis by (simp add: on_click_def Let_def)
  next
    case False
    with a have "Suc (active_time_format s) < length (format_time s)" by simp
    with a show ?thesis by (simp add: on_click_def Let_def)
  qed
next
  assume "button ev = button_change_format s \<and> button ev \<noteq> button_reset s
        \<and> button ev \<noteq> button_change_time_format s \<and> format s \<noteq> []"
  then show "on_click s ev t = Inr (s\<lparr>active := (active s + 1) mod length (format s)\<rparr>)"
    by (simp add: on_click_def change_active_def)
qed

text \<open>
  On the third of three slots with four time formats: button 2 moves the time format
  from 0 to 1, button 1 moves the slot from 2 back to 0; the deadline stays at 10.
\<close>

theorem advance_click_witness:
  "active (on_third three_slots) = 2 \<and> cycle_time (on_third three_slots) = 10
   \<and> on_click (on_third three_slots) \<lparr>button = 2\<rparr> 50
        = Inr ((on_third three_slots)\<lparr>active_time_format := 1\<rparr>)
   \<and> on_click (on_third three_slots) \<lparr>button = 1\<rparr> 50
        = Inr ((on_third three_slots)\<lparr>active := 0\<rparr>)"
  using advance_click [of "\<lparr>button = 2\<rparr>" "on_third three_slots" 50]
        advance_click [of "\<lparr>button = 1\<rparr>" "on_third three_slots" 50]
  by (simp add: on_third_three_slots started_with_buttons)

text \<open>
  The claim as written fails when the change of time format shares its button with
  the reset: the click is a reset, the time format stays at 0 instead of moving to 1,
  the slot goes from 2 to 0 and the deadline from 10 to 60.
\<close>

theorem shared_button_counterexample:
  "button \<lparr>button = 3\<rparr> = button_change_time_format (on_third shared_button)
   \<and> active_time_format (on_third shared_button) = 0
   \<and> length (format_time (on_third shared_button)) = 4
   \<and> active (on_third shared_button) = 2
   \<and> cycle_time (on_third shared_button) = 10
   \<and> on_click (on_third shared_button) \<lparr>button = 3\<rparr> 50
        = Inr ((on_third shared_button)\<lparr>active := 0, cycle_time := 60\<rparr>)
   \<and> active_time_format (projr (on_click (on_third shared_button) \<lparr>button = 3\<rparr> 50))
        \<noteq> (active_time_format (on_third shared_button) + 1)
              mod length (format_time (on_third shared_button))
   \<and> active (projr (on_click (on_third shared_button) \<lparr>button = 3\<rparr> 50))
        \<noteq> active (on_third shared_button)
   \<and> cycle_time (projr (on_click (on_third shared_button) \<lparr>button = 3\<rparr> 50))
        \<noteq> cycle_time (on_third shared_button)"
  by (simp add: shared_button_def on_third_with_buttons started_with_buttons on_click_def)

subsection \<open>The deadline a poll returns\<close>

lemma change_active_frame:
  "change_active s d = Inr s1 \<Longrightarrow> s1 = s\<lparr>active := (active s + d) mod length (format s)\<rparr> \<and> format s \<noteq> []"
  by (auto simp add: change_active_def split: if_splits)

lemma cycling_cases:
  assumes "cycling s r = Inr s1"
  shows "s1 = (if cycle s \<noteq> 0 \<and> cycle_time s \<le> t_due r
               then s\<lparr>active := (active s + 1) mod length (format s),
                      cycle_time := t_rearm r + cycle s\<rparr>
               else s)"
  using assms
  by (auto simp add: cycling_def change_active_def split: if_splits sum.splits)

lemma clock_Inr:
  assumes "fst (clock e s r) = Inr out"
  shows "\<exists>s1. cycling s r = Inr s1 \<and> snd (clock e s r) = s1 \<and> clock_response e s1 r = Inr out"
  using assms by (auto simp add: clock_def split: sum.splits)

lemma clock_response_cached_until:
  assumes "clock_response e s r = Inr out"
  shows "active_time_format s < length (time_deltas s)"
    and "cached_until out =
      (let g = time_deltas s ! active_time_format s;
           deadline = (if g = 0 then 0 else t_now r + of_int g - fmod (t_now r) (of_int g))
       in if cycle s \<noteq> 0 then min deadline (cycle_time s) else deadline)"
  using assms
  by (auto simp add: clock_response_def py_index_def Let_def split: sum.splits if_splits)

lemma clock_cached_until:
  assumes "fst (clock e s r) = Inr out"
  shows "cached_until out =
      (let g = time_deltas s ! active_time_format s;
           deadline = (if g = 0 then 0 else t_now r + of_int g - fmod (t_now r) (of_int g))
       in if cycle s \<noteq> 0 then min deadline (cycle_time (snd (clock e s r))) else deadline)"
proof -
  from assms obtain s1 where c: "cycling s r = Inr s1" and s1: "snd (clock e s r) = s1"
    and resp: "clock_response e s1 r = Inr out"
    using clock_Inr by blast
  from cycling_cases [OF c] have fr: "time_deltas s1 = time_deltas s"
    "active_time_format s1 = active_time_format s" "cycle s1 = cycle s"
    by (auto split: if_splits)
  show ?thesis
    using clock_response_cached_until(2) [OF resp] fr s1 by (simp add: Let_def)
qed

text \<open>
  C1. A poll that returns a dictionary returns as \<^verbatim>\<open>cached_until\<close> the granularity
  deadline when the cycle interval is 0, and the smaller of the granularity deadline
  and the cycle deadline otherwise; the cycle deadline is the one the object holds
  after the cycling block of this poll. The granularity deadline is 0 for a
  granularity \<open>g\<close> of 0 and \<open>now + g - (now mod g)\<close> otherwise, where \<open>now\<close> is the
  clock value read for the timeout and \<open>now mod g\<close> is \<open>now - g * floor (now / g)\<close>.
  For \<open>g = 60\<close> and \<open>now\<close> a whole number \<open>X\<close> this is \<open>X + 60 - X mod 60\<close> in the
  integers.
\<close>

theorem cached_until_deadline:
  assumes "fst (clock e s r) = Inr out"
  shows "cached_until out =
      (let g = time_deltas s ! active_time_format s;
           now = t_now r;
           granularity_deadline =
             (if g = 0 then 0 else now + of_int g - (now - of_int g * of_int \<lfloor>now / of_int g\<rfloor>))
       in if cycle s \<noteq> 0
          then min granularity_deadline (cycle_time (snd (clock e s r)))
          else granularity_deadline)
    \<and> (time_deltas s ! active_time_format s = 60 \<and> t_now r = of_int X
         \<longrightarrow> cached_until out =
               (if cycle s \<noteq> 0
                then min (of_int (X + 60 - X mod 60)) (cycle_time (snd (clock e s r)))
                else of_int (X + 60 - X mod 60)))"
proof -
  note main = clock_cached_until [OF assms]
  have first: "cached_until out =
      (let g = time_deltas s ! active_time_format s;
           now = t_now r;
           granularity_deadline =
             (if g = 0 then 0 else now + of_int g - (now - of_int g * of_int \<lfloor>now / of_int g\<rfloor>))
       in if cycle s \<noteq> 0
          then min granularity_deadline (cycle_time (snd (clock e s r)))
          else granularity_deadline)"
    using main by (simp add: fmod_def Let_def)
  have "t_now r + of_int 60 - fmod (t_now r) (of_int 60) = of_int (X + 60 - X mod 60)"
    if "t_now r = of_int X"
    using that by (simp only: fmod_of_int of_int_add of_int_diff)
  with main have second: "cached_until out =
               (if cycle s \<noteq> 0
                then min (of_int (X + 60 - X mod 60)) (cycle_time (snd (clock e s r)))
                else of_int (X + 60 - X mod 60))"
    if "time_deltas s ! active_time_format s = 60 \<and> t_now r = of_int X"
    using that by (simp add: Let_def)
  from first second show ?thesis by blast
qed

text \<open>
  Two polls at second 125 with the third time format, whose granularity is 60. The
  default configuration does not cycle: the deadline is 180. The three-slot
  configuration cycles every ten seconds: the poll advances the slot, re-arms the
  cycle deadline to 135, and returns the smaller of 180 and 135.
\<close>

theorem cached_until_deadline_witness:
  "\<not> isl (fst (clock test_env (on_minutes default_config) (poll_at 125 6 0)))
   \<and> cycle (on_minutes default_config) = 0
   \<and> time_deltas (on_minutes default_config) ! active_time_format (on_minutes default_config) = 60
   \<and> t_now (poll_at 125 6 0) = of_int 125
   \<and> cached_until (projr (fst (clock test_env (on_minutes default_config) (poll_at 125 6 0))))
        = of_int (125 + 60 - 125 mod 60)
   \<and> \<not> isl (fst (clock test_env (on_minutes three_slots) (poll_at 125 6 0)))
   \<and> cycle (on_minutes three_slots) = 10
   \<and> cycle_time (snd (clock test_env (on_minutes three_slots) (poll_at 125 6 0))) = 135
   \<and> cached_until (projr (fst (clock test_env (on_minutes three_slots) (poll_at 125 6 0))))
        = min (of_int (125 + 60 - 125 mod 60)) 135"
proof -
  have a: "fst (clock test_env (on_minutes default_config) (poll_at 125 6 0))
     = Inr (projr (fst (clock test_env (on_minutes default_config) (poll_at 125 6 0))))"
    by (simp add: poll_default)
  have b: "fst (clock test_env (on_minutes three_slots) (poll_at 125 6 0))
     = Inr (projr (fst (clock test_env (on_minutes three_slots) (poll_at 125 6 0))))"
    by (simp add: poll_three_slots)
  have c: "cycle (on_minutes default_config) = 0"
    "time_deltas (on_minutes default_config) ! active_time_format (on_minutes default_config) = 60"
    "cycle (on_minutes three_slots) = 10"
    "time_deltas (on_minutes three_slots) ! active_time_format (on_minutes three_slots) = 60"
    "t_now (poll_at 125 6 0) = of_int 125"
    by (simp_all add: on_minutes_default init_default on_minutes_three_slots
        started_with_buttons poll_at_def)
  have d: "cycle_time (snd (clock test_env (on_minutes three_slots) (poll_at 125 6 0))) = 135"
    by (simp add: poll_three_slots)
  have e: "\<not> isl (fst (clock test_env (on_minutes default_config) (poll_at 125 6 0)))"
    "\<not> isl (fst (clock test_env (on_minutes three_slots) (poll_at 125 6 0)))"
    by (simp_all add: poll_default poll_three_slots)
  from cached_until_deadline [OF a, of 125] cached_until_deadline [OF b, of 125] c d e
  show ?thesis by simp
qed

subsection \<open>The glyph of the icon\<close>

lemma fmod_over_divisor: "y \<noteq> 0 \<Longrightarrow> fmod x y / y = frac (x / y)"
  by (simp add: fmod_def frac_def diff_divide_distrib)

lemma icon_index_value:
  "block_hours s \<noteq> 0 \<Longrightarrow>
     icon_index s t =
       Inr \<lfloor>frac ((of_int (hour t) + of_int (minute t) / 60) / block_hours s)
             * of_nat (length (blocks s))\<rfloor>"
  by (simp add: icon_index_def py_mod_def fmod_over_divisor Let_def)

lemma icon_index_range:
  assumes "block_hours s \<noteq> 0" "blocks s \<noteq> []" "icon_index s t = Inr i"
  shows "0 \<le> i" "i < int (length (blocks s))"
proof -
  let ?f = "frac ((of_int (hour t) + of_int (minute t) / 60) / block_hours s)"
  let ?n = "length (blocks s)"
  from assms have i: "i = \<lfloor>?f * of_nat ?n\<rfloor>" by (simp add: icon_index_value)
  have f0: "0 \<le> ?f" and f1: "?f < 1" by (rule frac_ge_0, rule frac_lt_1)
  have npos: "(0::rat) < of_nat ?n" using assms(2) by simp
  from f0 have "0 \<le> ?f * of_nat ?n" by simp
  then show "0 \<le> i" using i by simp
  from f1 npos have "?f * of_nat ?n < 1 * of_nat ?n"
    by (rule mult_strict_right_mono)
  then have "?f * of_nat ?n < of_int (int ?n)" by simp
  then show "i < int ?n" unfolding i by (simp only: floor_less_iff)
qed

lemma block_at_in_range: "0 \<le> i \<Longrightarrow> i < int (length bs) \<Longrightarrow> block_at bs i = Inr (bs ! nat i)"
  by (simp add: block_at_def Let_def)


lemma render_zone_icon:
  assumes "py_index (format_time s) (active_time_format s) = Inr ft"
    and "str_in ''{icon}'' ft"
    and "icon_index s (now_in r z) = Inr i"
    and "block_at (blocks s) i = Inr g"
  shows "render_zone e s r z =
     Inr (strftime e (now_in r z)
       (let x = safe_format e ft
                  [(''icon'', Some g), (''name'', Some (friendly_name z)),
                   (''name_'', if multiple_tz s then Some (friendly_name z) else None),
                   (''timezone'', Some z)]
        in if is_python_2 e then encode_utf8 e x else x))"
  using assms by (simp add: render_zone_def Let_def)




subsection \<open>What clicks and polls leave alone\<close>

text \<open>
  No call changes the settings: clicks and polls assign the active slot, the active
  time format and the cycle deadline only.
\<close>

lemma same_settings_refl: "same_settings s s"
  by (simp add: same_settings_def)

lemma same_settings_trans: "same_settings s s1 \<Longrightarrow> same_settings s1 s2 \<Longrightarrow> same_settings s s2"
  by (simp add: same_settings_def)

lemma change_active_same_settings: "change_active s d = Inr s1 \<Longrightarrow> same_settings s s1"
  by (cases "length (format s) = 0") (auto simp add: change_active_def same_settings_def)

lemma on_click_same_settings:
  assumes "on_click s ev t = Inr s1"
  shows "same_settings s s1"
proof -
  consider (a) "button ev = button_reset s"
    | (b) "button ev \<noteq> button_reset s" "button ev = button_change_time_format s"
    | (c) "button ev \<noteq> button_reset s" "button ev \<noteq> button_change_time_format s"
          "button ev = button_change_format s"
    | (d) "button ev \<noteq> button_reset s" "button ev \<noteq> button_change_time_format s"
          "button ev \<noteq> button_change_format s"
    by blast
  then show ?thesis
  proof cases
    case a
    with assms have "s1 = s\<lparr>active := 0, cycle_time := t + cycle s\<rparr>"
      by (simp add: on_click_def)
    then show ?thesis by (simp add: same_settings_def)
  next
    case b
    with assms have "s1 = s\<lparr>active_time_format := active_time_format s + 1\<rparr>
        \<or> s1 = s\<lparr>active_time_format := 0\<rparr>"
      by (simp add: on_click_def Let_def split: if_splits)
    then show ?thesis by (auto simp add: same_settings_def)
  next
    case c
    with assms have "change_active s 1 = Inr s1" by (simp add: on_click_def)
    then show ?thesis by (rule change_active_same_settings)
  next
    case d
    with assms have "s1 = s" by (simp add: on_click_def)
    then show ?thesis by (simp add: same_settings_refl)
  qed
qed


lemma cycling_same_settings:
  assumes "cycling s r = Inr s1"
  shows "same_settings s s1"
proof -
  from cycling_cases [OF assms] have "s1 = s\<lparr>active := (active s + 1) mod length (format s),
                      cycle_time := t_rearm r + cycle s\<rparr> \<or> s1 = s"
    by (simp split: if_splits)
  then show ?thesis by (auto simp add: same_settings_def)
qed

lemma clock_state: "snd (clock e s r) = (case cycling s r of Inl x \<Rightarrow> s | Inr s1 \<Rightarrow> s1)"
  by (simp add: clock_def split: sum.splits)

lemma clock_same_settings: "same_settings s (snd (clock e s r))"
  by (cases "cycling s r") (simp_all add: clock_state same_settings_refl cycling_same_settings)

lemma step_same_settings: "same_settings s (step e s c)"
proof (cases c)
  case (Click ev t)
  then show ?thesis
    by (cases "on_click s ev t") (simp_all add: same_settings_refl on_click_same_settings)
next
  case (Poll r)
  then show ?thesis by (simp add: clock_same_settings)
qed

lemma run_same_settings: "same_settings s (run e s cs)"
  unfolding run_def
proof (induction cs arbitrary: s)
  case Nil
  then show ?case by (simp add: same_settings_refl)
next
  case (Cons c cs)
  have "same_settings s (step e s c)" by (rule step_same_settings)
  moreover have "same_settings (step e s c) (foldl (step e) (step e s c) cs)" by (rule Cons.IH)
  ultimately show ?case by (simp add: same_settings_trans)
qed

subsection \<open>A single slot\<close>

lemma cycling_disabled: "cycle s = 0 \<Longrightarrow> cycling s r = Inr s"
  by (simp add: cycling_def)

lemma single_slot_cycle:
  assumes "post_config_hook e c t0 = Inr s0"
    and "cfg_format c = Str x \<or> cfg_format c = Lst [x]"
  shows "cycle s0 = 0"
  using assms(2) post_config_hook_fields(4) [OF assms(1)] by (auto simp add: as_list_def)

text \<open>
  C10. When \<^verbatim>\<open>format\<close> is one string, or a list of one string, initialisation sets
  the cycle interval to 0, whatever the user configured. The interval stays 0 through
  every later click and poll, so the cycling block of a poll changes nothing, and a
  poll that returns a dictionary returns the granularity deadline as
  \<^verbatim>\<open>cached_until\<close>.
\<close>

theorem single_slot_never_cycles:
  "post_config_hook e c t0 = Inr s0 \<and> (cfg_format c = Str x \<or> cfg_format c = Lst [x]) \<longrightarrow>
     cycle s0 = 0
     \<and> cycle (run e s0 cs) = 0
     \<and> cycling (run e s0 cs) r = Inr (run e s0 cs)
     \<and> snd (clock e (run e s0 cs) r) = run e s0 cs
     \<and> (fst (clock e (run e s0 cs) r) = Inr out \<longrightarrow>
          cached_until out =
            (let g = time_deltas (run e s0 cs) ! active_time_format (run e s0 cs);
                 now = t_now r
             in if g = 0 then 0 else now + of_int g - (now - of_int g * of_int \<lfloor>now / of_int g\<rfloor>)))"
proof (intro impI)
  assume a: "post_config_hook e c t0 = Inr s0 \<and> (cfg_format c = Str x \<or> cfg_format c = Lst [x])"
  let ?s = "run e s0 cs"
  from a have c0: "cycle s0 = 0" using single_slot_cycle by blast
  have "same_settings s0 ?s" by (rule run_same_settings)
  with c0 have c: "cycle ?s = 0" by (simp add: same_settings_def)
  then have cy: "cycling ?s r = Inr ?s" by (rule cycling_disabled)
  then have st: "snd (clock e ?s r) = ?s" by (simp add: clock_state)
  have "cached_until out =
            (let g = time_deltas ?s ! active_time_format ?s;
                 now = t_now r
             in if g = 0 then 0 else now + of_int g - (now - of_int g * of_int \<lfloor>now / of_int g\<rfloor>))"
    if "fst (clock e ?s r) = Inr out"
    using clock_cached_until [OF that] c by (simp add: Let_def fmod_def)
  with c0 c cy st show "cycle s0 = 0
     \<and> cycle ?s = 0
     \<and> cycling ?s r = Inr ?s
     \<and> snd (clock e ?s r) = ?s
     \<and> (fst (clock e ?s r) = Inr out \<longrightarrow>
          cached_until out =
            (let g = time_deltas ?s ! active_time_format ?s;
                 now = t_now r
             in if g = 0 then 0 else now + of_int g - (now - of_int g * of_int \<lfloor>now / of_int g\<rfloor>)))"
    by blast
qed


text \<open>
  The defaults of the class with a cycle of ten seconds configured: the interval is 0
  after initialisation, and a poll at second 125 with the third time format leaves
  the object as it is and returns 180.
\<close>

theorem single_slot_never_cycles_witness:
  "post_config_hook test_env single_slot 0 = Inr (started test_env single_slot)
   \<and> cfg_format single_slot = Str ''{Local}'' \<and> cfg_cycle single_slot = 10
   \<and> cycle (started test_env single_slot) = 0
   \<and> snd (clock test_env (on_minutes single_slot) (poll_at 125 6 0)) = on_minutes single_slot
   \<and> \<not> isl (fst (clock test_env (on_minutes single_slot) (poll_at 125 6 0)))
   \<and> cached_until (projr (fst (clock test_env (on_minutes single_slot) (poll_at 125 6 0)))) = 180"
proof -
  let ?cs = "[press 2 1, press 2 2]"
  have i: "post_config_hook test_env single_slot 0 = Inr (started test_env single_slot)"
    by (simp add: started_def init_single_slot init_default)
  have f: "cfg_format single_slot = Str ''{Local}''" "cfg_cycle single_slot = 10"
    by (simp_all add: single_slot_def default_config_def)
  have m: "on_minutes single_slot = on_minutes default_config"
    by (simp add: on_minutes_def started_single_slot)
  have r: "run test_env (started test_env single_slot) ?cs = on_minutes single_slot"
    by (simp add: on_minutes_def)
  have p: "fst (clock test_env (on_minutes single_slot) (poll_at 125 6 0))
      = Inr (projr (fst (clock test_env (on_minutes single_slot) (poll_at 125 6 0))))"
    "\<not> isl (fst (clock test_env (on_minutes single_slot) (poll_at 125 6 0)))"
    "cached_until (projr (fst (clock test_env (on_minutes single_slot) (poll_at 125 6 0)))) = 180"
    unfolding m by (simp_all add: poll_default)
  from single_slot_never_cycles [where e = test_env and c = single_slot and ?t0.0 = 0
      and ?s0.0 = "started test_env single_slot" and x = "''{Local}''" and cs = ?cs
      and r = "poll_at 125 6 0"
      and out = "projr (fst (clock test_env (on_minutes single_slot) (poll_at 125 6 0)))"]
    i f
  have "cycle (started test_env single_slot) = 0
     \<and> snd (clock test_env (run test_env (started test_env single_slot) ?cs) (poll_at 125 6 0))
         = run test_env (started test_env single_slot) ?cs"
    by blast
  with i f p show ?thesis unfolding r by simp
qed

subsection \<open>The indices stay within their lists\<close>

lemma in_range_fields:
  assumes "in_range s" "same_settings s s1" "active s1 < length (format s)"
    "active_time_format s1 < length (format_time s)"
  shows "in_range s1"
  using assms by (simp add: in_range_def same_settings_def)

lemma init_in_range:
  assumes "post_config_hook e c t0 = Inr s0"
    and "as_list (cfg_format c) \<noteq> []" "as_list (cfg_format_time c) \<noteq> []"
  shows "in_range s0"
  using assms(2,3) post_config_hook_fields [OF assms(1)]
  by (simp add: in_range_def)

lemma on_click_in_range:
  assumes "in_range s" "on_click s ev t = Inr s1"
  shows "in_range s1"
proof -
  from assms(1) have r: "active s < length (format s)"
    "active_time_format s < length (format_time s)"
    by (simp_all add: in_range_def)
  from r have pos: "0 < length (format s)" "0 < length (format_time s)" by auto
  note ss = on_click_same_settings [OF assms(2)]
  consider (a) "button ev = button_reset s"
    | (b) "button ev \<noteq> button_reset s" "button ev = button_change_time_format s"
    | (c) "button ev \<noteq> button_reset s" "button ev \<noteq> button_change_time_format s"
          "button ev = button_change_format s"
    | (d) "button ev \<noteq> button_reset s" "button ev \<noteq> button_change_time_format s"
          "button ev \<noteq> button_change_format s"
    by blast
  then have "active s1 < length (format s) \<and> active_time_format s1 < length (format_time s)"
  proof cases
    case a
    with assms(2) have "s1 = s\<lparr>active := 0, cycle_time := t + cycle s\<rparr>"
      by (simp add: on_click_def)
    with r pos show ?thesis by simp
  next
    case b
    with assms(2) have "s1 = (if Suc (active_time_format s) \<ge> length (format_time s)
        then s\<lparr>active_time_format := 0\<rparr>
        else s\<lparr>active_time_format := active_time_format s + 1\<rparr>)"
      by (simp add: on_click_def Let_def split: if_splits)
    with r pos show ?thesis by (simp split: if_splits)
  next
    case c
    with assms(2) have "change_active s 1 = Inr s1" by (simp add: on_click_def)
    then have "s1 = s\<lparr>active := (active s + 1) mod length (format s)\<rparr>"
      using change_active_frame by blast
    with r pos show ?thesis by simp
  next
    case d
    with assms(2) have "s1 = s" by (simp add: on_click_def)
    with r show ?thesis by simp
  qed
  with assms(1) ss show ?thesis by (simp add: in_range_fields)
qed

lemma cycling_in_range:
  assumes "in_range s" "cycling s r = Inr s1"
  shows "in_range s1"
proof -
  from assms(1) have r: "active s < length (format s)"
    "active_time_format s < length (format_time s)"
    by (simp_all add: in_range_def)
  from cycling_cases [OF assms(2)]
  have "s1 = s\<lparr>active := (active s + 1) mod length (format s),
                      cycle_time := t_rearm r + cycle s\<rparr> \<or> s1 = s"
    by (simp split: if_splits)
  moreover from r have "0 < length (format s)" by auto
  ultimately have "active s1 < length (format s) \<and> active_time_format s1 < length (format_time s)"
    using r by auto
  with assms(1) cycling_same_settings [OF assms(2)] show ?thesis by (simp add: in_range_fields)
qed

lemma cycling_total: "format s \<noteq> [] \<Longrightarrow> \<exists>s1. cycling s r = Inr s1"
  by (simp add: cycling_def change_active_def)

lemma step_in_range: "in_range s \<Longrightarrow> in_range (step e s c)"
proof (cases c)
  case (Click ev t)
  assume "in_range s"
  with Click show ?thesis
    by (cases "on_click s ev t") (simp_all add: on_click_in_range)
next
  case (Poll r)
  assume "in_range s"
  with Poll show ?thesis
    by (cases "cycling s r") (simp_all add: clock_state cycling_in_range)
qed

lemma run_in_range: "in_range s \<Longrightarrow> in_range (run e s cs)"
  unfolding run_def
  by (induction cs arbitrary: s) (simp_all add: step_in_range)

subsection \<open>When a poll raises\<close>

lemma icon_index_total: "block_hours s \<noteq> 0 \<Longrightarrow> \<exists>i. icon_index s t = Inr i"
  by (simp add: icon_index_value)

lemma render_zone_total:
  assumes "active_time_format s < length (format_time s)" "block_hours s \<noteq> 0" "blocks s \<noteq> []"
  shows "\<exists>x. render_zone e s r z = Inr x"
proof -
  from assms(1) obtain ft where ft: "py_index (format_time s) (active_time_format s) = Inr ft"
    by (simp add: py_index_def)
  show ?thesis
  proof (cases "str_in ''{icon}'' ft")
    case True
    from assms(2) obtain i where i: "icon_index s (now_in r z) = Inr i"
      using icon_index_total by blast
    from icon_index_range [OF assms(2,3) i]
    have "block_at (blocks s) i = Inr (blocks s ! nat i)" by (rule block_at_in_range)
    from render_zone_icon [OF ft True i this] show ?thesis by blast
  next
    case False
    with ft show ?thesis by (simp add: render_zone_def Let_def)
  qed
qed

lemma render_zone_cong:
  assumes "same_settings s s1" "active_time_format s1 = active_time_format s"
  shows "render_zone e s1 r z = render_zone e s r z"
proof -
  from assms have f: "format_time s1 = format_time s" "blocks s1 = blocks s"
    "block_hours s1 = block_hours s" "multiple_tz s1 = multiple_tz s"
    by (simp_all add: same_settings_def)
  then have "icon_index s1 = icon_index s" by (simp add: icon_index_def fun_eq_iff cong: sum.case_cong)
  with f assms(2) show ?thesis by (simp add: render_zone_def cong: sum.case_cong if_cong)
qed

lemma update_times_Inl:
  "update_times e s r its acc = Inl x \<Longrightarrow>
     \<exists>name z. (name, Zone z) \<in> set its \<and> render_zone e s r z = Inl x"
proof (induction its arbitrary: acc)
  case Nil
  then show ?case by simp
next
  case (Cons it its)
  obtain name zone where it: "it = (name, zone)" by (cases it)
  show ?case
  proof (cases zone)
    case Unresolved
    with Cons.prems it have "update_times e s r its (AList.update name ''?'' acc) = Inl x"
      by simp
    from Cons.IH [OF this] show ?thesis by auto
  next
    case (Zone z)
    show ?thesis
    proof (cases "render_zone e s r z")
      case (Inl y)
      with Cons.prems it Zone have "y = x" by simp
      with Inl it Zone show ?thesis by auto
    next
      case (Inr rendered)
      with Cons.prems it Zone have "update_times e s r its (AList.update name rendered acc) = Inl x"
        by simp
      from Cons.IH [OF this] show ?thesis by auto
    qed
  qed
qed

lemma update_times_map_of:
  "update_times e s r its acc = Inr tms \<Longrightarrow> distinct (map fst its) \<Longrightarrow>
     map_of tms k =
       (case map_of its k of
          None \<Rightarrow> map_of acc k
        | Some Unresolved \<Rightarrow> Some ''?''
        | Some (Zone z) \<Rightarrow> Some (projr (render_zone e s r z)))"
proof (induction its arbitrary: acc)
  case Nil
  then show ?case by simp
next
  case (Cons it its)
  obtain name zone where it: "it = (name, zone)" by (cases it)
  from Cons.prems(2) it have d: "distinct (map fst its)" and nm: "map_of its name = None"
    by (simp_all add: map_of_eq_None_iff)
  show ?case
  proof (cases zone)
    case Unresolved
    with Cons.prems it have u: "update_times e s r its (AList.update name ''?'' acc) = Inr tms"
      by simp
    from Cons.IH [OF u d] nm it Unresolved show ?thesis
      by (simp add: update_conv' cong: option.case_cong)
  next
    case (Zone z)
    with Cons.prems it obtain rendered where rz: "render_zone e s r z = Inr rendered"
      and u: "update_times e s r its (AList.update name rendered acc) = Inr tms"
      by (auto split: sum.splits)
    from Cons.IH [OF u d] nm it Zone rz show ?thesis
      by (simp add: update_conv' cong: option.case_cong)
  qed
qed

lemma cycling_active_time_format: "cycling s r = Inr s1 \<Longrightarrow> active_time_format s1 = active_time_format s"
  using cycling_cases [of s r s1] by (auto split: if_splits)

lemma clock_Inl:
  assumes "in_range s" "fst (clock e s r) = Inl x"
  shows "\<exists>name z. (name, Zone z) \<in> set (items s) \<and> render_zone e s r z = Inl x"
proof -
  from assms(1) have "format s \<noteq> []" by (auto simp add: in_range_def)
  then obtain s1 where c: "cycling s r = Inr s1" using cycling_total by blast
  note ss = cycling_same_settings [OF c]
  note atf = cycling_active_time_format [OF c]
  from cycling_in_range [OF assms(1) c] have r1: "in_range s1" .
  from c assms(2) have resp: "clock_response e s1 r = Inl x" by (simp add: clock_def)
  from r1 have i1: "py_index (time_deltas s1) (active_time_format s1)
      = Inr (time_deltas s1 ! active_time_format s1)"
    and i2: "py_index (format s1) (active s1) = Inr (format s1 ! active s1)"
    by (simp_all add: in_range_def py_index_def)
  have "update_times e s1 r (items s1) [] = Inl x"
  proof (cases "update_times e s1 r (items s1) []")
    case (Inl y)
    with resp show ?thesis by (simp add: clock_response_def)
  next
    case (Inr tms)
    with resp i1 i2 show ?thesis by (simp add: clock_response_def Let_def)
  qed
  from update_times_Inl [OF this] obtain name z
    where "(name, Zone z) \<in> set (items s1)" "render_zone e s1 r z = Inl x" by blast
  with ss atf render_zone_cong [OF ss atf] show ?thesis by (auto simp add: same_settings_def)
qed

lemma clock_total:
  assumes "in_range s" "block_hours s \<noteq> 0" "blocks s \<noteq> []"
  shows "\<not> isl (fst (clock e s r))"
proof
  assume "isl (fst (clock e s r))"
  then obtain x where "fst (clock e s r) = Inl x" by (cases "fst (clock e s r)") auto
  from clock_Inl [OF assms(1) this] obtain z where z: "render_zone e s r z = Inl x" by blast
  from assms(1) have "active_time_format s < length (format_time s)" by (simp add: in_range_def)
  from render_zone_total [OF this assms(2,3)] z show False by (metis sum.distinct(1))
qed

subsection \<open>What initialisation resolves\<close>

lemma get_timezone_Inl:
  assumes "get_timezone e tz = Inl x"
  shows "tz \<noteq> ''Local'' \<and> length tz = 2 \<and> country_timezones e tz = Some []"
  using assms
  by (auto simp add: get_timezone_def py_index_def split: if_splits option.splits)

lemma fill_items_Inl:
  "fill_items e ms its = Inl x \<Longrightarrow> \<exists>m\<in>set ms. get_timezone e m = Inl x"
proof (induction ms arbitrary: its)
  case Nil
  then show ?case by simp
next
  case (Cons m ms)
  show ?case
  proof (cases "get_timezone e m")
    case (Inl y)
    with Cons.prems show ?thesis by simp
  next
    case (Inr z)
    with Cons.prems have "fill_items e ms (AList.update m z its) = Inl x" by simp
    from Cons.IH [OF this] show ?thesis by auto
  qed
qed

lemma fill_items_map_of:
  "fill_items e ms its = Inr its1 \<Longrightarrow>
     map_of its1 k = (if k \<in> set ms then Some (projr (get_timezone e k)) else map_of its k)"
proof (induction ms arbitrary: its)
  case Nil
  then show ?case by simp
next
  case (Cons m ms)
  from Cons.prems obtain z where z: "get_timezone e m = Inr z"
    and f: "fill_items e ms (AList.update m z its) = Inr its1"
    by (auto split: sum.splits)
  from Cons.IH [OF f] z show ?case by (simp add: update_conv')
qed

lemma fill_items_distinct:
  "fill_items e ms its = Inr its1 \<Longrightarrow> distinct (map fst its) \<Longrightarrow> distinct (map fst its1)"
proof (induction ms arbitrary: its)
  case Nil
  then show ?case by simp
next
  case (Cons m ms)
  from Cons.prems(1) obtain z where z: "get_timezone e m = Inr z"
    and f: "fill_items e ms (AList.update m z its) = Inr its1"
    by (auto split: sum.splits)
  from Cons.prems(2) have "distinct (map fst (AList.update m z its))"
    by (rule distinct_update)
  from Cons.IH [OF f this] show ?case .
qed

lemma post_config_hook_Inl:
  assumes "post_config_hook e c t0 = Inl x"
  shows "\<exists>tok\<in>set (re_findall (concat (as_list (cfg_format c)))).
           tok \<noteq> ''Local'' \<and> length tok = 2 \<and> country_timezones e tok = Some []"
proof -
  from assms have "fill_items e (re_findall (concat (as_list (cfg_format c)))) [] = Inl x"
    by (simp add: post_config_hook_def Let_def split: sum.splits)
  from fill_items_Inl [OF this] get_timezone_Inl show ?thesis by blast
qed

lemma init_items:
  assumes "post_config_hook e c t0 = Inr s0"
  shows "distinct (map fst (items s0))"
    and "map_of (items s0) k =
      (if k \<in> set (re_findall (concat (as_list (cfg_format c))))
       then Some (projr (get_timezone e k)) else None)"
proof -
  note f = post_config_hook_fields(10) [OF assms]
  from fill_items_distinct [OF f] show "distinct (map fst (items s0))" by simp
  from fill_items_map_of [OF f] show "map_of (items s0) k =
      (if k \<in> set (re_findall (concat (as_list (cfg_format c))))
       then Some (projr (get_timezone e k)) else None)" by simp
qed

subsection \<open>Tokens that do not resolve\<close>

lemma lookup_fails_Unresolved: "lookup_fails e tok \<Longrightarrow> get_timezone e tok = Inr Unresolved"
  by (auto simp add: lookup_fails_def get_timezone_def pytz_timezone_def py_index_def)

lemma clock_full_text:
  assumes "fst (clock e s r) = Inr out"
  shows "\<exists>tms. update_times e (snd (clock e s r)) r (items s) [] = Inr tms
           \<and> full_text out = safe_format e (format s ! active (snd (clock e s r)))
                                (map (\<lambda>(k, v). (k, Some v)) tms)"
proof -
  from clock_Inr [OF assms] obtain s1 where c: "cycling s r = Inr s1"
    and s1: "snd (clock e s r) = s1" and resp: "clock_response e s1 r = Inr out"
    by blast
  note ss = cycling_same_settings [OF c]
  from resp obtain tms where u: "update_times e s1 r (items s1) [] = Inr tms"
    and ft: "full_text out = safe_format e (format s1 ! active s1) (map (\<lambda>(k, v). (k, Some v)) tms)"
    by (auto simp add: clock_response_def py_index_def Let_def split: sum.splits if_splits)
  with ss s1 show ?thesis by (auto simp add: same_settings_def)
qed

text \<open>
  C6. A lookup that fails for one of the three reasons makes \<^verbatim>\<open>_get_timezone\<close> return
  the marker, not raise. Initialisation raises only when \<^verbatim>\<open>pytz.country_timezones\<close>
  hands out an empty list for a two-letter token, which is none of the three failures.
  For a token of the configuration whose lookup failed, in every object reached from
  the initial one by clicks and polls: the table still holds the marker for it; the
  loop that fills \<^verbatim>\<open>times\<close> gives it the text \<^verbatim>\<open>?\<close>, whatever the active time format
  is; when that loop raises, the rendering of some resolved zone raised; a poll that
  returns a dictionary formatted the active slot with those times, \<^verbatim>\<open>?\<close> for the token;
  and with a
  non-empty list of time formats, a poll that raises does so in the rendering of a
  resolved zone.
\<close>

theorem unresolved_zone_renders_marker:
  "(lookup_fails e tok \<longrightarrow> get_timezone e tok = Inr Unresolved)
   \<and> (post_config_hook e c t0 = Inl x \<longrightarrow>
        (\<exists>k\<in>set (tokens c). k \<noteq> ''Local'' \<and> length k = 2 \<and> country_timezones e k = Some []))
   \<and> (lookup_fails e tok \<and> tok \<in> set (tokens c) \<and> post_config_hook e c t0 = Inr s0 \<longrightarrow>
        (let s = run e s0 cs
         in map_of (items s) tok = Some Unresolved
            \<and> (\<forall>tms. update_times e s r (items s) [] = Inr tms \<longrightarrow> map_of tms tok = Some ''?'')
            \<and> (\<forall>y. update_times e s r (items s) [] = Inl y \<longrightarrow>
                  (\<exists>name z. (name, Zone z) \<in> set (items s) \<and> render_zone e s r z = Inl y))
            \<and> (\<forall>out. fst (clock e s r) = Inr out \<longrightarrow>
                  (\<exists>tms. update_times e (snd (clock e s r)) r (items s) [] = Inr tms
                     \<and> map_of tms tok = Some ''?''
                     \<and> full_text out = safe_format e (format s ! active (snd (clock e s r)))
                                          (map (\<lambda>(k, v). (k, Some v)) tms)))
            \<and> (cfg_format_time c \<noteq> Lst [] \<longrightarrow>
                 (\<forall>y. fst (clock e s r) = Inl y \<longrightarrow>
                   (\<exists>name z. (name, Zone z) \<in> set (items s) \<and> render_zone e s r z = Inl y)))))"
proof (intro conjI impI)
  assume "lookup_fails e tok"
  then show "get_timezone e tok = Inr Unresolved" by (rule lookup_fails_Unresolved)
next
  assume "post_config_hook e c t0 = Inl x"
  from post_config_hook_Inl [OF this]
  show "\<exists>k\<in>set (tokens c). k \<noteq> ''Local'' \<and> length k = 2 \<and> country_timezones e k = Some []"
    by (simp add: tokens_def)
next
  assume a: "lookup_fails e tok \<and> tok \<in> set (tokens c) \<and> post_config_hook e c t0 = Inr s0"
  define s where "s = run e s0 cs"
  from a have init: "post_config_hook e c t0 = Inr s0" and tk: "tok \<in> set (tokens c)"
    and un: "get_timezone e tok = Inr Unresolved"
    by (simp_all add: lookup_fails_Unresolved)
  have ss: "same_settings s0 s" unfolding s_def by (rule run_same_settings)
  then have its: "items s = items s0" by (simp add: same_settings_def)
  from init_items [OF init] tk un have d: "distinct (map fst (items s))"
    and m: "map_of (items s) tok = Some Unresolved"
    by (simp_all add: its tokens_def)
  have u: "map_of tms tok = Some ''?''" if "update_times e s1 r (items s) [] = Inr tms" for tms s1
    using update_times_map_of [OF that d, of tok] m by simp
  have l: "\<exists>name z. (name, Zone z) \<in> set (items s) \<and> render_zone e s r z = Inl y"
    if "update_times e s r (items s) [] = Inl y" for y
    using update_times_Inl [OF that] .
  have f: "\<exists>tms. update_times e (snd (clock e s r)) r (items s) [] = Inr tms
             \<and> map_of tms tok = Some ''?''
             \<and> full_text out = safe_format e (format s ! active (snd (clock e s r)))
                                  (map (\<lambda>(k, v). (k, Some v)) tms)"
    if "fst (clock e s r) = Inr out" for out
    using clock_full_text [OF that] u by blast
  have p: "\<exists>name z. (name, Zone z) \<in> set (items s) \<and> render_zone e s r z = Inl y"
    if "cfg_format_time c \<noteq> Lst []" "fst (clock e s r) = Inl y" for y
  proof -
    have "as_list (cfg_format c) \<noteq> []"
    proof
      assume "as_list (cfg_format c) = []"
      with tk show False by (simp add: tokens_def)
    qed
    moreover from that(1) have "as_list (cfg_format_time c) \<noteq> []"
      by (cases "cfg_format_time c") (simp_all add: as_list_def)
    ultimately have "in_range s0" using init_in_range [OF init] by blast
    then have "in_range s" unfolding s_def by (rule run_in_range)
    from clock_Inl [OF this that(2)] show ?thesis .
  qed
  from m u l f p
  show "let s = run e s0 cs
         in map_of (items s) tok = Some Unresolved
            \<and> (\<forall>tms. update_times e s r (items s) [] = Inr tms \<longrightarrow> map_of tms tok = Some ''?'')
            \<and> (\<forall>y. update_times e s r (items s) [] = Inl y \<longrightarrow>
                  (\<exists>name z. (name, Zone z) \<in> set (items s) \<and> render_zone e s r z = Inl y))
            \<and> (\<forall>out. fst (clock e s r) = Inr out \<longrightarrow>
                  (\<exists>tms. update_times e (snd (clock e s r)) r (items s) [] = Inr tms
                     \<and> map_of tms tok = Some ''?''
                     \<and> full_text out = safe_format e (format s ! active (snd (clock e s r)))
                                          (map (\<lambda>(k, v). (k, Some v)) tms)))
            \<and> (cfg_format_time c \<noteq> Lst [] \<longrightarrow>
                 (\<forall>y. fst (clock e s r) = Inl y \<longrightarrow>
                   (\<exists>name z. (name, Zone z) \<in> set (items s) \<and> render_zone e s r z = Inl y)))"
    unfolding s_def [symmetric] Let_def by blast
qed


text \<open>
  In a world without a local zone, the tokens \<^verbatim>\<open>Local\<close>, \<^verbatim>\<open>zz\<close> and \<^verbatim>\<open>Mars/Base\<close> all
  fail; initialisation succeeds, the table holds three markers, and a poll shows
  three question marks. Where the country table holds empty lists, initialisation
  raises at the token \<^verbatim>\<open>de\<close>. With a \<^verbatim>\<open>block_hours\<close> of 0 and the icon format, the poll
  raises in the rendering of the local zone, not at the unknown one.
\<close>

theorem unresolved_zone_renders_marker_witness:
  "lookup_fails lost_env ''Local'' \<and> lookup_fails lost_env ''zz''
   \<and> lookup_fails lost_env ''Mars/Base''
   \<and> tokens lost_slots = [''Local'', ''zz'', ''Mars/Base'']
   \<and> post_config_hook lost_env lost_slots 0 = Inr (started lost_env lost_slots)
   \<and> map (map_of (items (run lost_env (started lost_env lost_slots) [press 2 1, press 2 2])))
        [''Local'', ''zz'', ''Mars/Base''] = [Some Unresolved, Some Unresolved, Some Unresolved]
   \<and> fst (clock lost_env (run lost_env (started lost_env lost_slots) [press 2 1, press 2 2])
          (poll_at 5 6 0))
        = Inr \<lparr>full_text = ''{Local} {zz} Local=? zz=? Mars/Base=?'', cached_until = 60\<rparr>
   \<and> post_config_hook hollow_env three_slots 0 = Inl IndexError
   \<and> (\<exists>k\<in>set (tokens three_slots).
          k \<noteq> ''Local'' \<and> length k = 2 \<and> country_timezones hollow_env k = Some [])
   \<and> ''de'' \<in> set (tokens three_slots) \<and> country_timezones hollow_env ''de'' = Some []
   \<and> lookup_fails test_env ''Mars/Base'' \<and> ''Mars/Base'' \<in> set (tokens zero_hours)
   \<and> post_config_hook test_env zero_hours 0 = Inr (started test_env zero_hours)
   \<and> cfg_format_time zero_hours \<noteq> Lst []
   \<and> fst (clock test_env (on_icon zero_hours) (poll_at 5 6 0)) = Inl ZeroDivisionError
   \<and> (\<exists>name z. (name, Zone z) \<in> set (items (on_icon zero_hours))
          \<and> render_zone test_env (on_icon zero_hours) (poll_at 5 6 0) z = Inl ZeroDivisionError)
   \<and> (''Local'', Zone ''Europe/Berlin'') \<in> set (items (on_icon zero_hours))
   \<and> render_zone test_env (on_icon zero_hours) (poll_at 5 6 0) ''Europe/Berlin''
        = Inl ZeroDivisionError"
proof -
  let ?a = "started lost_env lost_slots"
  let ?b = "run lost_env ?a [press 2 1, press 2 2]"
  have i: "post_config_hook lost_env lost_slots 0 = Inr ?a"
    by (simp add: started_def init_lost)
  have m: "map_of (items ?b) tok = Some Unresolved"
    if "lookup_fails lost_env tok" "tok \<in> set (tokens lost_slots)" for tok
    using unresolved_zone_renders_marker [where e = lost_env and tok = tok and c = lost_slots
        and ?t0.0 = 0 and ?s0.0 = ?a and cs = "[press 2 1, press 2 2]",
        THEN conjunct2, THEN conjunct2] that i
    by (simp add: Let_def)
  have p: "fst (clock lost_env ?b (poll_at 5 6 0))
        = Inr \<lparr>full_text = ''{Local} {zz} Local=? zz=? Mars/Base=?'', cached_until = 60\<rparr>"
    by (simp add: run_lost poll_lost)
  have h: "\<exists>k\<in>set (tokens three_slots).
          k \<noteq> ''Local'' \<and> length k = 2 \<and> country_timezones hollow_env k = Some []"
    using unresolved_zone_renders_marker [where e = hollow_env and c = three_slots
        and ?t0.0 = 0 and x = IndexError, THEN conjunct2, THEN conjunct1] init_hollow
    by blast
  have j: "post_config_hook test_env zero_hours 0 = Inr (started test_env zero_hours)"
    by (simp add: started_def init_zero_hours)
  have k: "''Mars/Base'' \<in> set (tokens zero_hours)" by (simp add: zero_hours_facts)
  have o: "run test_env (started test_env zero_hours) [press 2 1, press 2 2, press 2 3]
      = on_icon zero_hours"
    by (simp add: on_icon_def)
  have z: "\<exists>name z. (name, Zone z) \<in> set (items (on_icon zero_hours))
          \<and> render_zone test_env (on_icon zero_hours) (poll_at 5 6 0) z = Inl ZeroDivisionError"
    using unresolved_zone_renders_marker [where e = test_env and tok = "''Mars/Base''"
        and c = zero_hours and ?t0.0 = 0 and ?s0.0 = "started test_env zero_hours"
        and cs = "[press 2 1, press 2 2, press 2 3]" and r = "poll_at 5 6 0",
        THEN conjunct2, THEN conjunct2] zero_hours_facts(2,3) k j poll_zero_hours
    unfolding o Let_def by blast
  from m [of "''Local''"] m [of "''zz''"] m [of "''Mars/Base''"] lost_facts i p
  have first: "lookup_fails lost_env ''Local'' \<and> lookup_fails lost_env ''zz''
   \<and> lookup_fails lost_env ''Mars/Base''
   \<and> tokens lost_slots = [''Local'', ''zz'', ''Mars/Base'']
   \<and> post_config_hook lost_env lost_slots 0 = Inr ?a
   \<and> map (map_of (items ?b)) [''Local'', ''zz'', ''Mars/Base'']
        = [Some Unresolved, Some Unresolved, Some Unresolved]
   \<and> fst (clock lost_env ?b (poll_at 5 6 0))
        = Inr \<lparr>full_text = ''{Local} {zz} Local=? zz=? Mars/Base=?'', cached_until = 60\<rparr>"
    by simp
  from first h z init_hollow hollow_facts zero_hours_facts(2,3) k j poll_zero_hours
    zero_hours_items render_zero_hours
  show ?thesis by blast
qed

subsection \<open>Empty lists in the configuration\<close>

lemma clock_response_no_slot: "format s = [] \<Longrightarrow> isl (clock_response e s r)"
  by (simp add: clock_response_def py_index_def Let_def split: sum.splits)

lemma clock_response_no_delta: "time_deltas s = [] \<Longrightarrow> isl (clock_response e s r)"
  by (simp add: clock_response_def py_index_def Let_def split: sum.splits)

lemma clock_empty_list:
  assumes "format s = [] \<or> time_deltas s = []"
  shows "isl (fst (clock e s r))"
proof (cases "cycling s r")
  case (Inl x)
  then show ?thesis by (simp add: clock_def)
next
  case (Inr s1)
  from cycling_same_settings [OF Inr] assms have "format s1 = [] \<or> time_deltas s1 = []"
    by (simp add: same_settings_def)
  then have "isl (clock_response e s1 r)"
    using clock_response_no_slot clock_response_no_delta by blast
  with Inr show ?thesis by (simp add: clock_def)
qed

lemma on_click_total: "format s \<noteq> [] \<Longrightarrow> \<not> isl (on_click s ev t)"
  by (simp add: on_click_def change_active_def Let_def)

lemma as_list_empty: "as_list v = [] \<longleftrightarrow> v = Lst []"
  by (cases v) (simp_all add: as_list_def)

lemma post_config_hook_total:
  assumes "\<forall>code. country_timezones e code \<noteq> Some []"
  shows "\<not> isl (post_config_hook e c t0)"
proof
  assume "isl (post_config_hook e c t0)"
  then obtain x where "post_config_hook e c t0 = Inl x"
    by (cases "post_config_hook e c t0") auto
  from post_config_hook_Inl [OF this] assms show False by blast
qed

text \<open>
  C9, as the code has it. After initialisation the slot list and the list of time
  formats are what the user supplied, a plain string wrapped into a list of one: each
  is empty exactly when the user supplied an empty list, for which nothing is
  substituted. With both lists non-empty, a \<^verbatim>\<open>block_hours\<close> other than 0 and a
  non-empty \<^verbatim>\<open>blocks\<close>, the indices stay within their lists through every click and
  poll, and no later poll or click raises. With an empty list for either, every poll
  raises. Initialisation itself does not raise as long as \<^verbatim>\<open>pytz.country_timezones\<close>
  never hands out an empty list.
\<close>

theorem lists_after_init:
  "(post_config_hook e c t0 = Inr s0 \<longrightarrow>
      format s0 = as_list (cfg_format c) \<and> format_time s0 = as_list (cfg_format_time c)
      \<and> (format s0 = [] \<longleftrightarrow> cfg_format c = Lst [])
      \<and> (format_time s0 = [] \<longleftrightarrow> cfg_format_time c = Lst [])
      \<and> (cfg_format c \<noteq> Lst [] \<and> cfg_format_time c \<noteq> Lst []
          \<and> cfg_block_hours c \<noteq> 0 \<and> cfg_blocks c \<noteq> [] \<longrightarrow>
           in_range (run e s0 cs)
           \<and> \<not> isl (fst (clock e (run e s0 cs) r))
           \<and> \<not> isl (on_click (run e s0 cs) ev t))
      \<and> (cfg_format c = Lst [] \<or> cfg_format_time c = Lst [] \<longrightarrow>
           isl (fst (clock e (run e s0 cs) r))))
   \<and> ((\<forall>code. country_timezones e code \<noteq> Some []) \<longrightarrow> \<not> isl (post_config_hook e c t0))"
proof (intro conjI impI)
  assume "\<forall>code. country_timezones e code \<noteq> Some []"
  then show "\<not> isl (post_config_hook e c t0)" by (rule post_config_hook_total)
next
  assume init: "post_config_hook e c t0 = Inr s0"
  note f = post_config_hook_fields [OF init]
  from f show "format s0 = as_list (cfg_format c)" by simp
  from f show "format_time s0 = as_list (cfg_format_time c)" by simp
  from f show "format s0 = [] \<longleftrightarrow> cfg_format c = Lst []" by (simp add: as_list_empty)
  from f show "format_time s0 = [] \<longleftrightarrow> cfg_format_time c = Lst []" by (simp add: as_list_empty)
  let ?s = "run e s0 cs"
  have ss: "same_settings s0 ?s" by (rule run_same_settings)
  {
    assume a: "cfg_format c \<noteq> Lst [] \<and> cfg_format_time c \<noteq> Lst []
          \<and> cfg_block_hours c \<noteq> 0 \<and> cfg_blocks c \<noteq> []"
    then have "in_range s0" using init_in_range [OF init] by (simp add: as_list_empty)
    then show r: "in_range ?s" by (rule run_in_range)
    from a f ss have b: "block_hours ?s \<noteq> 0" "blocks ?s \<noteq> []"
      by (simp_all add: same_settings_def)
    from clock_total [OF r b] show "\<not> isl (fst (clock e ?s r))" .
    from r have "format ?s \<noteq> []" by (auto simp add: in_range_def)
    then show "\<not> isl (on_click ?s ev t)" by (rule on_click_total)
  }
  {
    assume "cfg_format c = Lst [] \<or> cfg_format_time c = Lst []"
    with f have "format s0 = [] \<or> time_deltas s0 = []" by (auto simp add: as_list_def)
    with ss have "format ?s = [] \<or> time_deltas ?s = []" by (simp add: same_settings_def)
    then show "isl (fst (clock e ?s r))" by (rule clock_empty_list)
  }
qed


text \<open>
  The claim as written fails for an empty list: the defaults of the class with
  \<^verbatim>\<open>format = []\<close> initialise to an empty slot list, those with \<^verbatim>\<open>format_time = []\<close> to
  an empty list of time formats, and the first poll of either raises \<^verbatim>\<open>IndexError\<close>.
\<close>

theorem empty_list_counterexample:
  "cfg_format no_slots = Lst []
   \<and> map_sum id format (post_config_hook test_env no_slots 0) = Inr []
   \<and> fst (clock test_env (started test_env no_slots) (poll_at 5 6 0)) = Inl IndexError
   \<and> cfg_format_time no_time_formats = Lst []
   \<and> map_sum id format_time (post_config_hook test_env no_time_formats 0) = Inr []
   \<and> fst (clock test_env (started test_env no_time_formats) (poll_at 5 6 0)) = Inl IndexError"
  by (simp add: started_def init_no_slots init_no_time_formats clock_def cycling_def
      clock_response_def render_zone_def py_index_def poll_at_def fmod_numeral)
    (simp add: no_slots_def no_time_formats_def default_config_def)

text \<open>
  The three-slot configuration meets every premise: after a click and a poll, a
  further poll returns a dictionary. With the empty slot list the first poll raises.
\<close>

theorem lists_after_init_witness:
  "post_config_hook test_env three_slots 0 = Inr (started test_env three_slots)
   \<and> cfg_format three_slots \<noteq> Lst [] \<and> cfg_format_time three_slots \<noteq> Lst []
   \<and> cfg_block_hours three_slots \<noteq> 0 \<and> cfg_blocks three_slots \<noteq> []
   \<and> length (format (started test_env three_slots)) = 3
   \<and> length (format_time (started test_env three_slots)) = 4
   \<and> \<not> isl (fst (clock test_env
          (run test_env (started test_env three_slots) [press 1 1, Poll (poll_at 12 6 0)])
          (poll_at 125 6 0)))
   \<and> (\<forall>code. country_timezones test_env code \<noteq> Some [])
   \<and> \<not> isl (post_config_hook test_env three_slots 0)
   \<and> post_config_hook test_env no_slots 0 = Inr (started test_env no_slots)
   \<and> cfg_format no_slots = Lst []
   \<and> isl (fst (clock test_env (run test_env (started test_env no_slots) []) (poll_at 5 6 0)))"
proof -
  have i: "post_config_hook test_env three_slots 0 = Inr (started test_env three_slots)"
    by (simp add: three_slots_def init_started)
  have c: "cfg_format three_slots \<noteq> Lst []" "cfg_format_time three_slots \<noteq> Lst []"
    "cfg_block_hours three_slots \<noteq> 0" "cfg_blocks three_slots \<noteq> []"
    by (simp_all add: three_slots_def with_buttons_def default_config_def CLOCK_BLOCKS_facts)
  have l: "length (format (started test_env three_slots)) = 3"
    "length (format_time (started test_env three_slots)) = 4"
    by (simp_all add: three_slots_def started_with_buttons)
  have j: "post_config_hook test_env no_slots 0 = Inr (started test_env no_slots)"
    by (simp add: started_def init_no_slots)
  have d: "cfg_format no_slots = Lst []" by (simp add: no_slots_def)
  note a = lists_after_init [where e = test_env and c = three_slots and ?t0.0 = 0
      and ?s0.0 = "started test_env three_slots"
      and cs = "[press 1 1, Poll (poll_at 12 6 0)]" and r = "poll_at 125 6 0"]
  note b = lists_after_init [where e = test_env and c = no_slots and ?t0.0 = 0
      and ?s0.0 = "started test_env no_slots" and cs = "[]" and r = "poll_at 5 6 0"]
  from a i c have "\<not> isl (fst (clock test_env
          (run test_env (started test_env three_slots) [press 1 1, Poll (poll_at 12 6 0)])
          (poll_at 125 6 0)))"
    by blast
  moreover from a test_env_countries have "\<not> isl (post_config_hook test_env three_slots 0)"
    by blast
  moreover from b j d
  have "isl (fst (clock test_env (run test_env (started test_env no_slots) []) (poll_at 5 6 0)))"
    by blast
  ultimately show ?thesis using i c l j d test_env_countries by blast
qed

subsection \<open>Auto-advance\<close>

lemma clock_cycling_state:
  assumes "format s \<noteq> []"
  shows "snd (clock e s r) =
     (if cycle s \<noteq> 0 \<and> cycle_time s \<le> t_due r
      then s\<lparr>active := (active s + 1) mod length (format s),
             cycle_time := t_rearm r + cycle s\<rparr>
      else s)"
proof -
  from cycling_total [OF assms] obtain s1 where c: "cycling s r = Inr s1" by blast
  then have "snd (clock e s r) = s1" by (simp add: clock_state)
  with cycling_cases [OF c] show ?thesis by simp
qed

lemma run_polls_Cons: "run e s (map Poll (r # rs)) = run e (snd (clock e s r)) (map Poll rs)"
  by (simp add: run_def)

lemma punctual_polls:
  assumes "0 < c"
  shows "cycle s = c \<Longrightarrow> active s < length (format s) \<Longrightarrow> punctual e s prev rs \<Longrightarrow>
     cycle_time s - c \<le> prev \<Longrightarrow> prev < cycle_time s \<Longrightarrow>
     \<exists>k. active (run e s (map Poll rs)) = (active s + k) mod length (format s)
        \<and> cycle_time (run e s (map Poll rs)) = cycle_time s + of_nat k * c
        \<and> cycle_time (run e s (map Poll rs)) - c \<le> last (prev # map t_due rs)
        \<and> last (prev # map t_due rs) < cycle_time (run e s (map Poll rs))"
proof (induction rs arbitrary: s prev)
  case Nil
  then have "active (run e s (map Poll [])) = (active s + 0) mod length (format s)
        \<and> cycle_time (run e s (map Poll [])) = cycle_time s + of_nat 0 * c
        \<and> cycle_time (run e s (map Poll [])) - c \<le> last (prev # map t_due [])
        \<and> last (prev # map t_due []) < cycle_time (run e s (map Poll []))"
    by (simp add: run_def)
  then show ?case by blast
next
  case (Cons r rs)
  let ?n = "length (format s)"
  let ?s1 = "snd (clock e s r)"
  let ?t = "t_due r"
  from Cons.prems(2) have ne: "format s \<noteq> []" and npos: "0 < ?n" by auto
  from Cons.prems(3) have re: "t_rearm r = ?t" and lo: "prev \<le> ?t" and hi: "?t \<le> cycle_time s"
    and p1: "punctual e ?s1 ?t rs"
    by auto
  have l: "last (prev # map t_due (r # rs)) = last (?t # map t_due rs)" by simp
  note st = clock_cycling_state [OF ne, of e r]
  show ?case
  proof (cases "cycle_time s \<le> ?t")
    case True
    with hi have eq: "?t = cycle_time s" by simp
    from True st Cons.prems(1) assms re
    have s1: "?s1 = s\<lparr>active := (active s + 1) mod ?n, cycle_time := ?t + c\<rparr>" by simp
    have a: "cycle ?s1 = c" "active ?s1 < length (format ?s1)" "cycle_time ?s1 - c \<le> ?t"
      "?t < cycle_time ?s1" "format ?s1 = format s" "active ?s1 = (active s + 1) mod ?n"
      "cycle_time ?s1 = cycle_time s + c"
      using Cons.prems(1) npos assms eq by (simp_all add: s1)
    from Cons.IH [OF a(1) a(2) p1 a(3) a(4)] obtain k
      where k: "active (run e ?s1 (map Poll rs)) = (active ?s1 + k) mod length (format ?s1)"
        "cycle_time (run e ?s1 (map Poll rs)) = cycle_time ?s1 + of_nat k * c"
        "cycle_time (run e ?s1 (map Poll rs)) - c \<le> last (?t # map t_due rs)"
        "last (?t # map t_due rs) < cycle_time (run e ?s1 (map Poll rs))"
      by blast
    have "((active s + 1) mod ?n + k) mod ?n = (active s + Suc k) mod ?n"
      by (simp add: mod_add_left_eq)
    with k(1) a(5,6) have "active (run e ?s1 (map Poll rs)) = (active s + Suc k) mod ?n"
      by simp
    moreover from k(2) a(7)
    have "cycle_time (run e ?s1 (map Poll rs)) = cycle_time s + of_nat (Suc k) * c"
      by (simp add: algebra_simps)
    ultimately show ?thesis
      unfolding run_polls_Cons l using k(3,4) by blast
  next
    case False
    with st have s1: "?s1 = s" by simp
    from False have "?t < cycle_time s" by simp
    moreover from Cons.prems(4) lo have "cycle_time s - c \<le> ?t" by simp
    ultimately obtain k
      where "active (run e s (map Poll rs)) = (active s + k) mod length (format s)"
        "cycle_time (run e s (map Poll rs)) = cycle_time s + of_nat k * c"
        "cycle_time (run e s (map Poll rs)) - c \<le> last (?t # map t_due rs)"
        "last (?t # map t_due rs) < cycle_time (run e s (map Poll rs))"
      using Cons.IH [OF Cons.prems(1) Cons.prems(2), of ?t] p1 s1 by auto
    then show ?thesis unfolding run_polls_Cons l s1 by blast
  qed
qed

lemma floor_between:
  fixes x c :: rat
  assumes "0 < c" "of_nat k * c \<le> x" "x < of_nat k * c + c"
  shows "nat \<lfloor>x / c\<rfloor> = k"
proof -
  from assms have "of_int (int k) \<le> x / c"
    by (simp add: pos_le_divide_eq)
  moreover from assms have "x / c < of_int (int k) + 1"
    by (simp add: pos_divide_less_eq algebra_simps)
  ultimately have "\<lfloor>x / c\<rfloor> = int k" by (rule floor_unique)
  then show ?thesis by simp
qed


text \<open>
  C3, as the code has it. With a positive cycle interval and the active slot within
  the \<open>N\<close> slots, a poll advances the slot by one modulo \<open>N\<close> exactly when the clock
  value it reads first has reached the stored deadline, and then re-arms the deadline
  to the clock value it reads next plus the interval; otherwise it leaves the object
  as it is. A poll advances by one at most, however late it comes, so the number of
  advances follows the elapsed time only for a host that polls on time. For such a
  host, starting from an object whose deadline was armed at \<open>start\<close> (its deadline is
  \<open>start + cycle\<close>), after polls up to the time \<open>T\<close> the slot has advanced by
  \<open>floor ((T - start) / cycle)\<close> modulo \<open>N\<close>.
\<close>

theorem auto_advance:
  "0 < cycle s \<and> active s < length (format s) \<longrightarrow>
     snd (clock e s r) =
       (if cycle_time s \<le> t_due r
        then s\<lparr>active := (active s + 1) mod length (format s),
               cycle_time := t_rearm r + cycle s\<rparr>
        else s)
     \<and> (punctual e s (cycle_time s - cycle s) rs \<longrightarrow>
          active (run e s (map Poll rs)) =
            (active s
             + nat \<lfloor>(last ((cycle_time s - cycle s) # map t_due rs) - (cycle_time s - cycle s))
                      / cycle s\<rfloor>)
            mod length (format s))"
proof (intro impI conjI)
  assume a: "0 < cycle s \<and> active s < length (format s)"
  then have ne: "format s \<noteq> []" by auto
  from clock_cycling_state [OF ne, of e r] a
  show "snd (clock e s r) =
       (if cycle_time s \<le> t_due r
        then s\<lparr>active := (active s + 1) mod length (format s),
               cycle_time := t_rearm r + cycle s\<rparr>
        else s)"
    by simp
  assume p: "punctual e s (cycle_time s - cycle s) rs"
  let ?c = "cycle s"
  let ?start = "cycle_time s - ?c"
  let ?end = "last (?start # map t_due rs)"
  let ?s1 = "run e s (map Poll rs)"
  from a have c: "0 < ?c" and r: "active s < length (format s)" by simp_all
  from c have "?start < cycle_time s" by simp
  from punctual_polls [OF c refl r p order_refl this] obtain k
    where k: "active ?s1 = (active s + k) mod length (format s)"
      "cycle_time ?s1 = cycle_time s + of_nat k * ?c"
      "cycle_time ?s1 - ?c \<le> ?end" "?end < cycle_time ?s1"
    by blast
  from k(2,3) have "of_nat k * ?c \<le> ?end - ?start" by simp
  moreover from k(2,4) have "?end - ?start < of_nat k * ?c + ?c" by simp
  ultimately have "nat \<lfloor>(?end - ?start) / ?c\<rfloor> = k" using c by (intro floor_between)
  with k(1) show "active ?s1 = (active s + nat \<lfloor>(?end - ?start) / ?c\<rfloor>) mod length (format s)"
    by simp
qed

lemma started_three_slots_cycle:
  "cycle (started test_env three_slots) = 10" "cycle_time (started test_env three_slots) = 10"
  "active (started test_env three_slots) = 0" "length (format (started test_env three_slots)) = 3"
  by (simp_all add: three_slots_def started_with_buttons)

lemma late_poll:
  "snd (clock test_env (started test_env three_slots) (poll_at 25 6 0))
     = (started test_env three_slots)\<lparr>active := 1, cycle_time := 35\<rparr>"
  by (simp add: clock_state cycling_def change_active_def three_slots_def started_with_buttons
      poll_at_def)

text \<open>
  The claim as written fails for a poll that comes late. Three slots, a cycle of ten
  seconds, armed at time 0: a single poll at second 25 advances the slot from 0 to 1,
  while \<open>floor (25 / 10) mod 3\<close> is 2.
\<close>

theorem late_poll_counterexample:
  "cycle (started test_env three_slots) = 10
   \<and> cycle_time (started test_env three_slots) = 0 + 10
   \<and> active (started test_env three_slots) = 0
   \<and> length (format (started test_env three_slots)) = 3
   \<and> active (run test_env (started test_env three_slots) (map Poll [poll_at 25 6 0])) = 1
   \<and> (active (started test_env three_slots)
        + nat \<lfloor>(25 - 0) / cycle (started test_env three_slots)\<rfloor>)
       mod length (format (started test_env three_slots)) = 2
   \<and> active (run test_env (started test_env three_slots) (map Poll [poll_at 25 6 0]))
        \<noteq> (active (started test_env three_slots)
            + nat \<lfloor>(25 - 0) / cycle (started test_env three_slots)\<rfloor>)
           mod length (format (started test_env three_slots))"
  by (simp add: started_three_slots_cycle run_def late_poll floor_numeral_div_rat)

lemma on_time_polls:
  "snd (clock test_env (started test_env three_slots) (poll_at 5 6 0))
     = started test_env three_slots"
  "snd (clock test_env (started test_env three_slots) (poll_at 10 6 0))
     = (started test_env three_slots)\<lparr>active := Suc 0, cycle_time := 20\<rparr>"
  "snd (clock test_env ((started test_env three_slots)\<lparr>active := Suc 0, cycle_time := 20\<rparr>)
          (poll_at 20 6 0))
     = (started test_env three_slots)\<lparr>active := 2, cycle_time := 30\<rparr>"
  "snd (clock test_env ((started test_env three_slots)\<lparr>active := 2, cycle_time := 30\<rparr>)
          (poll_at 27 6 0))
     = (started test_env three_slots)\<lparr>active := 2, cycle_time := 30\<rparr>"
  by (simp_all add: clock_state cycling_def change_active_def three_slots_def
      started_with_buttons poll_at_def)

text \<open>
  Polls at the seconds 5, 10, 20 and 27 are on time: the second and the third advance
  the slot, and after 27 seconds the slot is \<open>floor (27 / 10) mod 3 = 2\<close>.
\<close>

theorem auto_advance_witness:
  "0 < cycle (started test_env three_slots)
   \<and> active (started test_env three_slots) < length (format (started test_env three_slots))
   \<and> cycle_time (started test_env three_slots) - cycle (started test_env three_slots) = 0
   \<and> punctual test_env (started test_env three_slots) 0
         [poll_at 5 6 0, poll_at 10 6 0, poll_at 20 6 0, poll_at 27 6 0]
   \<and> snd (clock test_env (started test_env three_slots) (poll_at 10 6 0))
        = (started test_env three_slots)\<lparr>active := 1, cycle_time := 20\<rparr>
   \<and> active (run test_env (started test_env three_slots)
         (map Poll [poll_at 5 6 0, poll_at 10 6 0, poll_at 20 6 0, poll_at 27 6 0]))
        = (0 + nat \<lfloor>((27 - 0) / 10 :: rat)\<rfloor>) mod 3
   \<and> (0 + nat \<lfloor>((27 - 0) / 10 :: rat)\<rfloor>) mod 3 = (2::nat)"
proof -
  let ?a = "started test_env three_slots"
  let ?rs = "[poll_at 5 6 0, poll_at 10 6 0, poll_at 20 6 0, poll_at 27 6 0]"
  note f = started_three_slots_cycle
  have t: "t_due (poll_at x 6 0) = x" "t_rearm (poll_at x 6 0) = x" for x
    by (simp_all add: poll_at_def)
  have p: "punctual test_env ?a 0 ?rs"
    by (simp add: on_time_polls t f)
  have st: "cycle_time ?a - cycle ?a = 0" by (simp add: f)
  have l: "last ((cycle_time ?a - cycle ?a) # map t_due ?rs) = 27"
    by (simp add: t)
  from auto_advance [where s = ?a and e = test_env and rs = ?rs and r = "poll_at 10 6 0"] p f
  have "snd (clock test_env ?a (poll_at 10 6 0))
        = ?a\<lparr>active := (active ?a + 1) mod length (format ?a),
              cycle_time := t_rearm (poll_at 10 6 0) + cycle ?a\<rparr>
     \<and> active (run test_env ?a (map Poll ?rs)) =
            (active ?a
             + nat \<lfloor>(last ((cycle_time ?a - cycle ?a) # map t_due ?rs) - (cycle_time ?a - cycle ?a))
                      / cycle ?a\<rfloor>)
            mod length (format ?a)"
    unfolding st by (simp add: t)
  then have "snd (clock test_env ?a (poll_at 10 6 0)) = ?a\<lparr>active := 1, cycle_time := 20\<rparr>
      \<and> active (run test_env ?a (map Poll ?rs)) = (0 + nat \<lfloor>((27 - 0) / 10 :: rat)\<rfloor>) mod 3"
    unfolding l st by (simp add: f t)
  with p st f show ?thesis by (simp add: floor_numeral_div_rat)
qed

end
